theory Spec2Isabelle
  imports Complex_Main "HOL-Library.Sublist" "HOL-Library.AList"
begin

section \<open>JavaScript values used by the application\<close>

text \<open>
  The application is one script of four classes (\<open>SceneManager\<close>, \<open>VoiceSystem\<close>,
  \<open>QuizEngine\<close>, \<open>AIOrchestrator\<close>) driven by \<open>UIManager\<close>. Numbers that the
  templates carry (positions, scales, speeds) are decimal literals that are only stored and
  compared with zero, never computed with, so they are modelled as rationals. Strings are
  lists of 8-bit characters (the Latin-1 range of a JavaScript string).
\<close>

datatype vec3 = Vec3 (vx: rat) (vy: rat) (vz: rat)

text \<open>
  \<open>a || d\<close> on an optional number: the default \<open>d\<close> is taken when the field is
  \<open>undefined\<close> (omitted) and also when it is \<open>0\<close>, both being falsy.
  On an optional object only \<open>undefined\<close> is falsy.
\<close>

definition orNumber :: "rat option \<Rightarrow> rat \<Rightarrow> rat" where
  "orNumber v d = (case v of None \<Rightarrow> d | Some n \<Rightarrow> if n = 0 then d else n)"

definition orObject :: "'a option \<Rightarrow> 'a \<Rightarrow> 'a" where
  "orObject v d = (case v of None \<Rightarrow> d | Some ob \<Rightarrow> ob)"

text \<open>
  A default parameter \<open>f(p = d)\<close> takes \<open>d\<close> only when the argument is \<open>undefined\<close>.
\<close>

definition default_param :: "'a option \<Rightarrow> 'a \<Rightarrow> 'a" where
  "default_param v d = (case v of None \<Rightarrow> d | Some a \<Rightarrow> a)"

text \<open>An omitted field used as a property key is the string \<open>undefined\<close>.\<close>

definition propertyKey :: "string option \<Rightarrow> string" where
  "propertyKey k = (case k of None \<Rightarrow> ''undefined'' | Some s \<Rightarrow> s)"

text \<open>
  \<open>obj[k]\<close> on an object literal: an own property if there is one, otherwise whatever
  \<open>Object.prototype\<close> provides under that name (a truthy built-in), otherwise
  \<open>undefined\<close>.
\<close>

definition objectPrototypeKeys :: "string list" where
  "objectPrototypeKeys =
     [''constructor'', ''hasOwnProperty'', ''isPrototypeOf'', ''propertyIsEnumerable'',
      ''toLocaleString'', ''toString'', ''valueOf'', ''__proto__'',
      ''__defineGetter__'', ''__defineSetter__'', ''__lookupGetter__'', ''__lookupSetter__'']"

datatype 'a property = Own 'a | Inherited string | Undefined

definition getProp :: "(string \<times> 'a) list \<Rightarrow> string \<Rightarrow> 'a property" where
  "getProp obj k =
     (case map_of obj k of
        Some v \<Rightarrow> Own v
      | None \<Rightarrow> if k \<in> set objectPrototypeKeys then Inherited k else Undefined)"

text \<open>
  \<open>String.prototype.toLowerCase\<close> on the letters A to Z. The other characters are left
  as they are: those that JavaScript would change become characters outside ASCII, which no
  keyword of the resolver contains. \<open>includes_str\<close> is \<open>String.prototype.includes\<close>.
\<close>

definition toLowerCaseChar :: "char \<Rightarrow> char" where
  "toLowerCaseChar c =
     (let n = (of_char c :: nat) in if 65 \<le> n \<and> n \<le> 90 then char_of (n + 32) else c)"

definition toLowerCase :: "string \<Rightarrow> string" where
  "toLowerCase s = map toLowerCaseChar s"

definition includes_str :: "string \<Rightarrow> string \<Rightarrow> bool" where
  "includes_str s t = sublist t s"

text \<open>\<open>String.prototype.trim\<close> on the white space of the Latin-1 range.\<close>

definition isWhiteSpace :: "char \<Rightarrow> bool" where
  "isWhiteSpace c =
     (let n = (of_char c :: nat) in (9 \<le> n \<and> n \<le> 13) \<or> n = 32 \<or> n = 160)"

definition trim :: "string \<Rightarrow> string" where
  "trim s = rev (dropWhile isWhiteSpace (rev (dropWhile isWhiteSpace s)))"

datatype error =
    Error string
  | TypeError
  | LoaderError string

section \<open>Topic registry (\<open>AIOrchestrator.topics\<close>)\<close>

text \<open>
  A scene action is the object literal of the template: \<open>type\<close> and the optional fields,
  \<open>None\<close> for a field the literal omits.
\<close>

record action =
  atype :: string
  model :: "string option"
  position :: "vec3 option"
  scale :: "rat option"
  animation :: "string option"
  object :: "string option"
  center :: "vec3 option"
  speed :: "rat option"
  radius :: "rat option"
  intensity :: "rat option"

definition loadModelAction :: "string \<Rightarrow> vec3 option \<Rightarrow> rat option \<Rightarrow> action" where
  "loadModelAction m p s =
     \<lparr>atype = ''loadModel'', model = Some m, position = p, scale = s, animation = None,
      object = None, center = None, speed = None, radius = None, intensity = None\<rparr>"

definition orbitAction :: "string \<Rightarrow> vec3 option \<Rightarrow> rat option \<Rightarrow> rat option \<Rightarrow> action" where
  "orbitAction ob c sp r =
     \<lparr>atype = ''animate'', model = None, position = None, scale = None,
      animation = Some ''orbit'', object = Some ob, center = c, speed = sp, radius = r,
      intensity = None\<rparr>"

definition scaleAnimAction :: "string \<Rightarrow> string \<Rightarrow> rat option \<Rightarrow> rat option \<Rightarrow> action" where
  "scaleAnimAction kind ob sp i =
     \<lparr>atype = ''animate'', model = None, position = None, scale = None,
      animation = Some kind, object = Some ob, center = None, speed = sp, radius = None,
      intensity = i\<rparr>"

record quiz =
  question :: string
  options :: "string list"
  correctAnswer :: string
  correctFeedback :: string
  incorrectFeedback :: string

record response =
  narration :: string
  actions :: "action list"
  quiz :: "quiz option"

record topic_data =
  name :: string
  description :: string
  responses :: "(string \<times> response) list"

definition solar_system :: topic_data where
  "solar_system =
    \<lparr>name = ''Solar System'',
     description = ''Learn about our solar system and planetary motion'',
     responses =
       [(''explain'',
         \<lparr>narration = ''This is our solar system. The Sun is at the center, and planets like Earth orbit around it due to gravity. The Sun is a massive star that provides light and heat to all the planets in our solar system.'',
          actions =
            [loadModelAction ''sun'' (Some (Vec3 0 0 0)) (Some 1.5),
             loadModelAction ''earth'' (Some (Vec3 3 0 0)) (Some 0.7),
             orbitAction ''earth'' (Some (Vec3 0 0 0)) (Some 0.01) (Some 3)],
          quiz = Some
            \<lparr>question = ''What keeps Earth in orbit around the Sun?'',
             options = [''Electromagnetic forces'', ''Gravity'', ''Solar wind'', ''Centrifugal force''],
             correctAnswer = ''Gravity'',
             correctFeedback = ''Correct! Gravity is the force that keeps Earth in orbit around the Sun.'',
             incorrectFeedback = ''Not quite. The correct answer is Gravity, which is the attractive force between two masses.''\<rparr>\<rparr>),
        (''scale'',
         \<lparr>narration = ''The scale of our solar system is enormous. The Sun is much larger than Earth - about 109 times wider. The distance between them is about 150 million kilometers!'',
          actions =
            [loadModelAction ''sun'' (Some (Vec3 0 0 0)) (Some 2),
             loadModelAction ''earth'' (Some (Vec3 5 0 0)) (Some 0.2),
             orbitAction ''earth'' (Some (Vec3 0 0 0)) (Some 0.005) (Some 5)],
          quiz = None\<rparr>)]\<rparr>"

definition heart_anatomy :: topic_data where
  "heart_anatomy =
    \<lparr>name = ''Heart Anatomy'',
     description = ''Explore the structure and function of the human heart'',
     responses =
       [(''explain'',
         \<lparr>narration = ''This is a model of the human heart. It has four chambers: two atria on top and two ventricles below. The heart pumps blood throughout the body, delivering oxygen and nutrients to tissues.'',
          actions =
            [loadModelAction ''heart'' (Some (Vec3 0 0 0)) (Some 1.2),
             scaleAnimAction ''beat'' ''heart'' (Some 0.1) (Some 0.1)],
          quiz = Some
            \<lparr>question = ''How many chambers does the human heart have?'',
             options = [''2'', ''3'', ''4'', ''5''],
             correctAnswer = ''4'',
             correctFeedback = ''That's right! The heart has four chambers: two atria and two ventricles.'',
             incorrectFeedback = ''Actually, the human heart has four chambers: two atria and two ventricles.''\<rparr>\<rparr>),
        (''function'',
         \<lparr>narration = ''The heart functions as a pump. The right side receives oxygen-poor blood and sends it to the lungs. The left side receives oxygen-rich blood from the lungs and pumps it to the body.'',
          actions =
            [loadModelAction ''heart'' (Some (Vec3 0 0 0)) (Some 1.2),
             scaleAnimAction ''beat'' ''heart'' (Some 0.15) (Some 0.15)],
          quiz = None\<rparr>)]\<rparr>"

definition volcano :: topic_data where
  "volcano =
    \<lparr>name = ''Volcano'',
     description = ''Learn about volcanic structures and eruptions'',
     responses =
       [(''explain'',
         \<lparr>narration = ''This is a volcano. It forms when magma from within the Earth erupts through the crust. Volcanoes can be found on land and under the ocean, and they play a key role in shaping Earth's surface.'',
          actions =
            [loadModelAction ''volcano'' (Some (Vec3 0 (-1) 0)) (Some 1.5)],
          quiz = Some
            \<lparr>question = ''What is molten rock beneath the Earth's surface called?'',
             options = [''Lava'', ''Magma'', ''Igneous'', ''Basalt''],
             correctAnswer = ''Magma'',
             correctFeedback = ''Correct! Magma is molten rock below the surface, which becomes lava when it erupts.'',
             incorrectFeedback = ''Not quite. The correct answer is Magma. Lava is what it's called after it erupts.''\<rparr>\<rparr>),
        (''eruption'',
         \<lparr>narration = ''During a volcanic eruption, magma rises through the volcano's conduit and is expelled as lava, ash, and gases. The type of eruption depends on the magma's viscosity and gas content.'',
          actions =
            [loadModelAction ''volcano'' (Some (Vec3 0 (-1) 0)) (Some 1.5),
             scaleAnimAction ''pulse'' ''volcano'' (Some 0.2) (Some 0.05)],
          quiz = None\<rparr>)]\<rparr>"

definition topics :: "(string \<times> topic_data) list" where
  "topics =
     [(''solar-system'', solar_system),
      (''heart-anatomy'', heart_anatomy),
      (''volcano'', volcano)]"

section \<open>Intent resolution (\<open>AIOrchestrator.processQuery\<close>)\<close>

record response_bundle =
  topic :: string
  intent :: string
  response :: response

text \<open>The keyword chain at the head of \<open>processQuery\<close>.\<close>

definition detectIntent :: "string \<Rightarrow> string \<Rightarrow> string" where
  "detectIntent t q =
     (if includes_str (toLowerCase q) ''explain'' then ''explain''
      else if includes_str (toLowerCase q) ''scale'' \<and> t = ''solar-system'' then ''scale''
      else if includes_str (toLowerCase q) ''function'' \<and> t = ''heart-anatomy'' then ''function''
      else if includes_str (toLowerCase q) ''eruption'' \<and> t = ''volcano'' then ''eruption''
      else ''unknown'')"

definition fallbackResponse :: response where
  "fallbackResponse =
     \<lparr>narration = ''I'm not sure how to answer that. Try asking me to explain this topic.'',
      actions = [],
      quiz = None\<rparr>"

text \<open>
  \<open>processQuery\<close> over the registry \<open>tps\<close> (the field \<open>this.topics\<close>). The result is
  \<open>Inr None\<close> for the \<open>null\<close> it returns on a topic the registry does not have, and
  \<open>Inl TypeError\<close> when \<open>topicData\<close> is a built-in of \<open>Object.prototype\<close>, whose
  \<open>responses\<close> is \<open>undefined\<close>. The intents looked up in \<open>responses\<close> are the five
  fixed keys, none of which \<open>Object.prototype\<close> has.
\<close>

definition processQuery ::
  "(string \<times> topic_data) list \<Rightarrow> string \<Rightarrow> string \<Rightarrow> error + response_bundle option" where
  "processQuery tps t q =
     (let i = detectIntent t q in
      case getProp tps t of
        Undefined \<Rightarrow> Inr None
      | Inherited b \<Rightarrow> Inl TypeError
      | Own topicData \<Rightarrow>
          (case map_of (responses topicData) i of
             Some r \<Rightarrow> Inr (Some \<lparr>topic = t, intent = i, response = r\<rparr>)
           | None \<Rightarrow>
               Inr (Some \<lparr>topic = t, intent = ''explain'',
                          response = orObject (map_of (responses topicData) ''explain'')
                                            fallbackResponse\<rparr>)))"

definition getTopicList :: "(string \<times> topic_data) list \<Rightarrow> (string \<times> string \<times> string) list" where
  "getTopicList tps = map (\<lambda>(k, td). (k, name td, description td)) tps"

section \<open>Scene state (\<open>SceneManager\<close>) and the rest of the page\<close>

text \<open>
  A loaded model is the \<open>gltf.scene\<close> object the loader delivers, after \<open>loadModel\<close> has
  set its position and scale. \<open>oid\<close> is the object's identity (two loads of one asset give
  two objects) and \<open>modelName\<close> records the key it was loaded for; both are bookkeeping of
  the model, not JavaScript fields. The render loop, which is what moves animated objects
  frame by frame, is not part of this development: objects keep the position and scale
  they were given when loaded.
\<close>

record gltf_model =
  oid :: nat
  modelName :: string
  obj_position :: vec3
  obj_scale :: vec3
  pointLight :: bool

datatype object3d = AmbientLight | DirectionalLight | Gltf gltf_model

text \<open>What \<open>this.models[k]\<close> can give when it is truthy: a loaded model or a built-in.\<close>

datatype jsvalue = Model gltf_model | Builtin string

datatype anim =
    OrbitAnimation (target: jsvalue) (a_center: vec3) (angle: rat) (a_radius: rat) (a_speed: rat)
  | BeatingAnimation (target: jsvalue) (originalScale: vec3) (time: rat) (a_speed: rat)
      (a_intensity: rat)

datatype 'a promise = Resolved 'a | Rejected error

text \<open>
  The promise \<open>loadModel\<close> returns is either settled by the time the call returns (the model
  is cached, or its key is not available) or waits for the asset loader: \<open>InFlight\<close> keeps
  what the loader's callback will need, the model key, the asset, the position and scale of
  the call, and the number of the loader call.

  \<open>executeSceneActions\<close> is an \<open>async\<close> function: at the \<open>await\<close> of a \<open>loadModel\<close> it
  is suspended and its caller goes on. A \<open>task\<close> is such a suspended call: the promise it
  awaits, the action it is in, and the actions still to run.
\<close>

datatype load_state =
    Settled "jsvalue promise"
  | InFlight string string vec3 rat nat

record task =
  awaited :: load_state
  current :: action
  remaining :: "action list"

text \<open>
  \<open>scene\<close> is the child list of the THREE scene, \<open>models\<close> the cache \<open>this.models\<close> in
  insertion order, \<open>chat\<close> the messages appended to the chat log, \<open>spoken\<close> the texts
  handed to the speech synthesiser, \<open>console\<close> the calls of \<open>console.error\<close>.
  \<open>nextId\<close> counts the objects created and \<open>loads\<close> the calls of the asset loader.
  \<open>pending\<close> holds the suspended calls of \<open>executeSceneActions\<close>, oldest first.
\<close>

record world =
  scene :: "object3d list"
  models :: "(string \<times> gltf_model) list"
  animations :: "anim list"
  nextId :: nat
  loads :: nat
  isVoiceEnabled :: bool
  spoken :: "string list"
  currentQuiz :: "quiz option"
  quizVisible :: bool
  currentTopic :: "string option"
  chat :: "(string \<times> string \<times> string) list"
  console :: "(string \<times> error) list"
  pending :: "task list"

text \<open>
  The asset loader is outside the program: \<open>ld n url\<close> tells whether the \<open>n\<close>-th call of
  \<open>GLTFLoader.load\<close>, on \<open>url\<close>, ends in its success callback (otherwise in its error
  callback). One of the two is taken to happen.
\<close>

type_synonym loader = "nat \<Rightarrow> string \<Rightarrow> bool"

definition allLoadsSucceed :: loader where
  "allLoadsSucceed n url = True"

definition allLoadsFail :: loader where
  "allLoadsFail n url = False"

definition availableModels :: "(string \<times> string) list" where
  "availableModels =
     [(''sun'', ''https://cdn.jsdelivr.net/gh/mrdoob/three.js@dev/examples/models/gltf/Planet.glb''),
      (''earth'', ''https://cdn.jsdelivr.net/gh/mrdoob/three.js@dev/examples/models/gltf/Earth.glb''),
      (''heart'', ''https://cdn.jsdelivr.net/gh/mrdoob/three.js@dev/examples/models/gltf/Heart.glb''),
      (''volcano'', ''https://cdn.jsdelivr.net/gh/mrdoob/three.js@dev/examples/models/gltf/Volcano.glb'')]"

text \<open>The state once the constructors and \<open>SceneManager.init\<close> have run.\<close>

definition initial :: world where
  "initial =
     \<lparr>scene = [AmbientLight, DirectionalLight], models = [], animations = [], nextId = 0,
      loads = 0, isVoiceEnabled = True, spoken = [], currentQuiz = None, quizVisible = False,
      currentTopic = None, chat = [], console = [], pending = []\<rparr>"

definition consoleError :: "string \<Rightarrow> error \<Rightarrow> world \<Rightarrow> world" where
  "consoleError msg e w = w\<lparr>console := console w @ [(msg, e)]\<rparr>"

text \<open>
  \<open>loadModel\<close> with its promise awaited and nothing else happening before it settles: the
  body of the promise and, where the loader is called, its callback at once. Where
  \<open>availableModels\<close> is consulted the name is not one of \<open>Object.prototype\<close> (the cache
  lookup before it would have been truthy), so that lookup finds an own property or nothing.
\<close>

definition loadModel ::
  "loader \<Rightarrow> string \<Rightarrow> vec3 option \<Rightarrow> rat option \<Rightarrow> world \<Rightarrow> jsvalue promise \<times> world" where
  "loadModel ld mname pos sc w =
     (let p = default_param pos (Vec3 0 0 0); s = default_param sc 1 in
      case getProp (models w) mname of
        Own m \<Rightarrow> (Resolved (Model m), w)
      | Inherited b \<Rightarrow> (Resolved (Builtin b), w)
      | Undefined \<Rightarrow>
          (case map_of availableModels mname of
             None \<Rightarrow> (Rejected (Error (''Model '' @ mname @ '' not available'')), w)
           | Some url \<Rightarrow>
               if ld (loads w) url then
                 (let m = \<lparr>oid = nextId w, modelName = mname, obj_position = p,
                           obj_scale = Vec3 s s s, pointLight = (mname = ''sun'')\<rparr>
                  in (Resolved (Model m),
                      w\<lparr>scene := scene w @ [Gltf m],
                        models := AList.update mname m (models w),
                        nextId := Suc (nextId w),
                        loads := Suc (loads w)\<rparr>))
               else
                 (Rejected (LoaderError url),
                  consoleError ''Error loading model:'' (LoaderError url)
                    (w\<lparr>loads := Suc (loads w)\<rparr>))))"

text \<open>
  The two halves of \<open>loadModel\<close> apart. \<open>startLoadModel\<close> is what the call does before it
  returns its promise: the cache and availability checks, and the call of the loader.
  \<open>settleLoad\<close> is what happens when the promise settles: nothing more for a promise that
  was settled from the start, the loader's success or error callback for one in flight. The
  success callback stores the model under its key whatever the cache holds by then.
\<close>

definition startLoadModel ::
  "string \<Rightarrow> vec3 option \<Rightarrow> rat option \<Rightarrow> world \<Rightarrow> load_state \<times> world" where
  "startLoadModel mname pos sc w =
     (let p = default_param pos (Vec3 0 0 0); s = default_param sc 1 in
      case getProp (models w) mname of
        Own m \<Rightarrow> (Settled (Resolved (Model m)), w)
      | Inherited b \<Rightarrow> (Settled (Resolved (Builtin b)), w)
      | Undefined \<Rightarrow>
          (case map_of availableModels mname of
             None \<Rightarrow> (Settled (Rejected (Error (''Model '' @ mname @ '' not available''))), w)
           | Some url \<Rightarrow> (InFlight mname url p s (loads w), w\<lparr>loads := Suc (loads w)\<rparr>)))"

definition settleLoad :: "loader \<Rightarrow> load_state \<Rightarrow> world \<Rightarrow> jsvalue promise \<times> world" where
  "settleLoad ld st w =
     (case st of
        Settled r \<Rightarrow> (r, w)
      | InFlight mname url p s n \<Rightarrow>
          if ld n url then
            (let m = \<lparr>oid = nextId w, modelName = mname, obj_position = p,
                      obj_scale = Vec3 s s s, pointLight = (mname = ''sun'')\<rparr>
             in (Resolved (Model m),
                 w\<lparr>scene := scene w @ [Gltf m],
                   models := AList.update mname m (models w),
                   nextId := Suc (nextId w)\<rparr>))
          else
            (Rejected (LoaderError url),
             consoleError ''Error loading model:'' (LoaderError url) w))"

text \<open>\<open>clearScene\<close>: \<open>scene.remove\<close> takes the object out of the child list.\<close>

definition clearScene :: "world \<Rightarrow> world" where
  "clearScene w =
     w\<lparr>scene := fold (\<lambda>m children. remove1 (Gltf m) children) (map snd (models w)) (scene w),
       models := [],
       animations := []\<rparr>"

definition addAnimation :: "anim \<Rightarrow> world \<Rightarrow> world" where
  "addAnimation a w = w\<lparr>animations := animations w @ [a]\<rparr>"

definition createOrbitAnimation ::
  "jsvalue \<Rightarrow> vec3 \<Rightarrow> rat option \<Rightarrow> rat option \<Rightarrow> world \<Rightarrow> anim \<times> world" where
  "createOrbitAnimation ob c sp r w =
     (let a = OrbitAnimation ob c 0 (default_param r 3) (default_param sp 0.01)
      in (a, addAnimation a w))"

text \<open>
  \<open>createBeatingAnimation\<close> reads \<open>object.scale.clone()\<close> first, a \<open>TypeError\<close> on a
  built-in, which has no \<open>scale\<close>.
\<close>

definition createBeatingAnimation ::
  "jsvalue \<Rightarrow> rat option \<Rightarrow> rat option \<Rightarrow> world \<Rightarrow> (error \<times> world) + anim \<times> world" where
  "createBeatingAnimation ob sp i w =
     (case ob of
        Builtin b \<Rightarrow> Inl (TypeError, w)
      | Model m \<Rightarrow>
          (let a = BeatingAnimation ob (obj_scale m) 0 (default_param sp 0.05) (default_param i 0.1)
           in Inr (a, addAnimation a w)))"

section \<open>Action executor (\<open>UIManager.executeSceneActions\<close>)\<close>

text \<open>
  A statement that can throw maps a state to \<open>Inl (e, w')\<close>, the error and the state reached
  when it was thrown, or to \<open>Inr w'\<close>.
\<close>

type_synonym 'a result = "(error \<times> world) + 'a"

definition try_catch ::
  "(world \<Rightarrow> world result) \<Rightarrow> (error \<Rightarrow> world \<Rightarrow> world result) \<Rightarrow> world \<Rightarrow> world result" where
  "try_catch body handler w =
     (case body w of Inr w' \<Rightarrow> Inr w' | Inl (e, w') \<Rightarrow> handler e w')"

text \<open>The \<open>switch\<close> inside the \<open>try\<close> block, with the \<open>await\<close> of \<open>loadModel\<close>.\<close>

definition animateTarget :: "action \<Rightarrow> jsvalue \<Rightarrow> world \<Rightarrow> world result" where
  "animateTarget a ob w =
     (if animation a = Some ''orbit'' then
        Inr (snd (createOrbitAnimation ob (orObject (center a) (Vec3 0 0 0))
                    (Some (orNumber (speed a) 0.01)) (Some (orNumber (radius a) 3)) w))
      else if animation a = Some ''beat'' then
        map_sum id snd
          (createBeatingAnimation ob (Some (orNumber (speed a) 0.1))
             (Some (orNumber (intensity a) 0.1)) w)
      else if animation a = Some ''pulse'' then
        map_sum id snd
          (createBeatingAnimation ob (Some (orNumber (speed a) 0.2))
             (Some (orNumber (intensity a) 0.05)) w)
      else Inr w)"

definition performAction :: "loader \<Rightarrow> action \<Rightarrow> world \<Rightarrow> world result" where
  "performAction ld a w =
     (if atype a = ''loadModel'' then
        (case loadModel ld (propertyKey (model a))
                (Some (orObject (position a) (Vec3 0 0 0))) (Some (orNumber (scale a) 1)) w of
           (Resolved v, w') \<Rightarrow> Inr w'
         | (Rejected e, w') \<Rightarrow> Inl (e, w'))
      else if atype a = ''animate'' then
        (case getProp (models w) (propertyKey (object a)) of
           Undefined \<Rightarrow> Inr w
         | Own m \<Rightarrow> animateTarget a (Model m) w
         | Inherited b \<Rightarrow> animateTarget a (Builtin b) w)
      else Inr w)"

definition logActionError :: "action \<Rightarrow> error \<Rightarrow> world \<Rightarrow> world result" where
  "logActionError a e w = Inr (consoleError (''Error executing action '' @ atype a @ '':'') e w)"

text \<open>
  \<open>executeSceneActions\<close> from its call to the settling of its promise, with nothing else
  happening while it awaits.
\<close>

fun executeSceneActions :: "loader \<Rightarrow> action list \<Rightarrow> world \<Rightarrow> world result" where
  "executeSceneActions ld [] w = Inr w"
| "executeSceneActions ld (a # as) w =
     (case try_catch (performAction ld a) (logActionError a) w of
        Inl ew \<Rightarrow> Inl ew
      | Inr w' \<Rightarrow> executeSceneActions ld as w')"

text \<open>
  The same function as its caller sees it. \<open>startSceneActions\<close> runs the list up to the
  first \<open>await\<close>, that of the first \<open>loadModel\<close> action, and hands back the suspended call;
  actions that await nothing run on the spot. \<open>resumeTask\<close> is the suspended call going on
  when the promise it awaits has settled: a rejection is caught and logged, and the rest of
  the list runs up to the next \<open>await\<close>.
\<close>

fun startSceneActions :: "loader \<Rightarrow> action list \<Rightarrow> world \<Rightarrow> task option \<times> world" where
  "startSceneActions ld [] w = (None, w)"
| "startSceneActions ld (a # as) w =
     (if atype a = ''loadModel'' then
        (case startLoadModel (propertyKey (model a))
                (Some (orObject (position a) (Vec3 0 0 0))) (Some (orNumber (scale a) 1)) w of
           (st, w') \<Rightarrow> (Some \<lparr>awaited = st, current = a, remaining = as\<rparr>, w'))
      else
        (case try_catch (performAction ld a) (logActionError a) w of
           Inr w' \<Rightarrow> startSceneActions ld as w'
         | Inl (e, w') \<Rightarrow> (None, w')))"

definition resumeTask :: "loader \<Rightarrow> task \<Rightarrow> world \<Rightarrow> task option \<times> world" where
  "resumeTask ld t w =
     (case settleLoad ld (awaited t) w of
        (Resolved v, w') \<Rightarrow> startSceneActions ld (remaining t) w'
      | (Rejected e, w') \<Rightarrow>
          startSceneActions ld (remaining t)
            (consoleError (''Error executing action '' @ atype (current t) @ '':'') e w'))"

definition suspend :: "task option \<times> world \<Rightarrow> world" where
  "suspend r = (case r of (None, w) \<Rightarrow> w | (Some t, w) \<Rightarrow> w\<lparr>pending := pending w @ [t]\<rparr>)"

text \<open>
  \<open>resume ld i\<close> is the event that lets the \<open>i\<close>-th suspended call go on. When it happens
  is not the program's choice: a load in flight settles when the network answers, after any
  number of other events.
\<close>

definition resume :: "loader \<Rightarrow> nat \<Rightarrow> world \<Rightarrow> world" where
  "resume ld i w =
     (if i < length (pending w) then
        suspend (resumeTask ld (pending w ! i)
                   (w\<lparr>pending := take i (pending w) @ drop (Suc i) (pending w)\<rparr>))
      else w)"

section \<open>Response dispatch (\<open>UIManager\<close>)\<close>

definition addChatMessage :: "string \<Rightarrow> string \<Rightarrow> string \<Rightarrow> world \<Rightarrow> world" where
  "addChatMessage sender message ty w = w\<lparr>chat := chat w @ [(sender, message, ty)]\<rparr>"

definition speak :: "string \<Rightarrow> world \<Rightarrow> world" where
  "speak text w = (if isVoiceEnabled w then w\<lparr>spoken := spoken w @ [text]\<rparr> else w)"

definition displayQuiz :: "quiz \<Rightarrow> world \<Rightarrow> world" where
  "displayQuiz quizData w = w\<lparr>currentQuiz := Some quizData, quizVisible := True\<rparr>"

text \<open>
  \<open>handleAIResponse\<close> starts \<open>executeSceneActions\<close> without awaiting it: the executor runs
  up to its first \<open>await\<close> and stays suspended in \<open>pending\<close>, the quiz is shown, and the
  function returns with the assets still to load.
\<close>

definition handleAIResponse :: "loader \<Rightarrow> response_bundle option \<Rightarrow> world \<Rightarrow> world" where
  "handleAIResponse ld resp w =
     (case resp of
        None \<Rightarrow> w
      | Some b \<Rightarrow>
          (let w1 = addChatMessage ''AI Teacher'' (narration (response b)) ''ai'' w;
               w2 = speak (narration (response b)) w1;
               w3 = suspend (startSceneActions ld (actions (response b)) w2)
           in case quiz (response b) of
                None \<Rightarrow> w3
              | Some quizData \<Rightarrow> displayQuiz quizData w3))"

text \<open>The \<open>name\<close> property of what \<open>Object.prototype\<close> provides under a key.\<close>

definition builtinName :: "string \<Rightarrow> string" where
  "builtinName k =
     (if k = ''constructor'' then ''Object''
      else if k = ''__proto__'' then ''undefined''
      else k)"

text \<open>
  \<open>loadTopic\<close>, up to the point where its promise settles; the \<open>await\<close> of
  \<open>processQuery\<close>, a promise settled from the start, is taken to go on at once. The loading
  message reads \<open>topics[topicId].name\<close> before the \<open>try\<close>
  block is entered: on a topic the registry does not have this throws, and the promise of
  \<open>loadTopic\<close> is rejected. \<open>loadLesson\<close> is the rest of the body: the message and the
  \<open>try\<close> block with its \<open>catch\<close>.
\<close>

definition loadLesson :: "loader \<Rightarrow> string \<Rightarrow> string \<Rightarrow> world \<Rightarrow> world" where
  "loadLesson ld topicId lesson w =
     (let w1 = addChatMessage ''AI Teacher'' (''Loading '' @ lesson @ '' lesson...'') ''ai'' w
      in case processQuery topics topicId ''explain'' of
           Inr resp \<Rightarrow> handleAIResponse ld resp w1
         | Inl e \<Rightarrow>
             addChatMessage ''AI Teacher''
               ''Sorry, I encountered an error loading this topic.'' ''ai''
               (consoleError ''Error loading topic:'' e w1))"

definition loadTopic :: "loader \<Rightarrow> string \<Rightarrow> world \<Rightarrow> world result" where
  "loadTopic ld topicId w =
     (let w1 = clearScene (w\<lparr>currentTopic := Some topicId\<rparr>) in
      case getProp topics topicId of
        Undefined \<Rightarrow> Inl (TypeError, w1)
      | Own td \<Rightarrow> Inr (loadLesson ld topicId (name td) w1)
      | Inherited b \<Rightarrow> Inr (loadLesson ld topicId (builtinName b) w1))"

text \<open>
  \<open>handleUserInput\<close> on the text of the input field. \<open>currentTopic\<close> is \<open>null\<close> until a
  topic is loaded; as a property key that is the string \<open>null\<close>, which equals none of the
  topic ids the keyword chain compares with. The loading indicator is added to the page and
  removed again, and is left out.
\<close>

definition handleUserInput :: "loader \<Rightarrow> string \<Rightarrow> world \<Rightarrow> world" where
  "handleUserInput ld raw w =
     (let userInput = trim raw in
      if userInput = [] then w
      else
        (let w1 = addChatMessage ''You'' userInput ''user'' w;
             t = (case currentTopic w1 of None \<Rightarrow> ''null'' | Some topicId \<Rightarrow> topicId)
         in case processQuery topics t userInput of
              Inr resp \<Rightarrow> handleAIResponse ld resp w1
            | Inl e \<Rightarrow>
                addChatMessage ''AI Teacher''
                  ''Sorry, I encountered an error processing your request.'' ''ai''
                  (consoleError ''Error processing query:'' e w1)))"

section \<open>Notions the properties are stated with\<close>

text \<open>All quizzes of a registry, in registry order.\<close>

definition registryQuizzes :: "(string \<times> topic_data) list \<Rightarrow> quiz list" where
  "registryQuizzes tps =
     concat (map (\<lambda>(k, td).
       concat (map (\<lambda>(i, r). case quiz r of None \<Rightarrow> [] | Some qz \<Rightarrow> [qz]) (responses td))) tps)"

text \<open>
  The resolver as the design describes it: a table of keyword rules, each with the topic it
  is restricted to if any, tried in order on the lower-cased query; the first rule that
  applies gives the intent.
\<close>

definition intentRules :: "(string \<times> string option) list" where
  "intentRules =
     [(''explain'', None),
      (''scale'', Some ''solar-system''),
      (''function'', Some ''heart-anatomy''),
      (''eruption'', Some ''volcano'')]"

definition spec_resolve :: "string \<Rightarrow> string \<Rightarrow> string" where
  "spec_resolve t q =
     (case find (\<lambda>(kw, gate). sublist kw (toLowerCase q) \<and> (gate = None \<or> gate = Some t))
             intentRules of
        Some (kw, gate) \<Rightarrow> kw
      | None \<Rightarrow> ''unknown'')"

text \<open>
  An action with every explicit zero among its numeric parameters left out instead.
\<close>

definition dropZero :: "rat option \<Rightarrow> rat option" where
  "dropZero v = (if v = Some 0 then None else v)"

definition omitZeros :: "action \<Rightarrow> action" where
  "omitZeros a =
     a\<lparr>scale := dropZero (scale a), speed := dropZero (speed a),
       radius := dropZero (radius a), intensity := dropZero (intensity a)\<rparr>"

text \<open>The initial scene after the heart model has been loaded into it with scale 1.2.\<close>

definition heartLoaded :: world where
  "heartLoaded =
     initial\<lparr>scene := [AmbientLight, DirectionalLight,
                        Gltf \<lparr>oid = 0, modelName = ''heart'', obj_position = Vec3 0 0 0,
                              obj_scale = Vec3 1.2 1.2 1.2, pointLight = False\<rparr>],
             models := [(''heart'', \<lparr>oid = 0, modelName = ''heart'', obj_position = Vec3 0 0 0,
                                     obj_scale = Vec3 1.2 1.2 1.2, pointLight = False\<rparr>)],
             nextId := 1, loads := 1\<rparr>"

text \<open>
  The solar system as its explain template has loaded it into the initial scene once both
  assets have loaded.
\<close>

definition sunModel :: gltf_model where
  "sunModel = \<lparr>oid = 0, modelName = ''sun'', obj_position = Vec3 0 0 0,
                obj_scale = Vec3 1.5 1.5 1.5, pointLight = True\<rparr>"

definition earthModel :: gltf_model where
  "earthModel = \<lparr>oid = 1, modelName = ''earth'', obj_position = Vec3 3 0 0,
                  obj_scale = Vec3 0.7 0.7 0.7, pointLight = False\<rparr>"

definition solarLoaded :: world where
  "solarLoaded =
     \<lparr>scene = [AmbientLight, DirectionalLight, Gltf sunModel, Gltf earthModel],
      models = [(''sun'', sunModel), (''earth'', earthModel)],
      animations = [OrbitAnimation (Model earthModel) (Vec3 0 0 0) 0 3 0.01],
      nextId = 2, loads = 2, isVoiceEnabled = True,
      spoken = [narration (snd (hd (responses solar_system)))],
      currentQuiz = quiz (snd (hd (responses solar_system))),
      quizVisible = True,
      currentTopic = Some ''solar-system'',
      chat = [(''AI Teacher'', ''Loading Solar System lesson...'', ''ai''),
              (''AI Teacher'', narration (snd (hd (responses solar_system))), ''ai'')],
      console = [], pending = []\<rparr>"

text \<open>
  The state in which \<open>loadTopic\<close> returns for the solar system on the initial scene: the
  executor is suspended at the load of the sun, with the rest of the template still to run.
\<close>

definition solarLoading :: world where
  "solarLoading =
     solarLoaded
       \<lparr>scene := [AmbientLight, DirectionalLight], models := [], animations := [],
        nextId := 0, loads := 1,
        pending :=
          [\<lparr>awaited = InFlight ''sun''
                        ''https://cdn.jsdelivr.net/gh/mrdoob/three.js@dev/examples/models/gltf/Planet.glb''
                        (Vec3 0 0 0) 1.5 0,
            current = loadModelAction ''sun'' (Some (Vec3 0 0 0)) (Some 1.5),
            remaining = [loadModelAction ''earth'' (Some (Vec3 3 0 0)) (Some 0.7),
                         orbitAction ''earth'' (Some (Vec3 0 0 0)) (Some 0.01) (Some 3)]\<rparr>]\<rparr>"

text \<open>
  Counting what is in the scene: \<open>instances w k\<close> is the number of scene objects that are
  models loaded for the key \<open>k\<close>, and \<open>modelKeys\<close> the keys a list of actions loads.
\<close>

definition isModel :: "object3d \<Rightarrow> bool" where
  "isModel ob = (case ob of Gltf m \<Rightarrow> True | _ \<Rightarrow> False)"

definition isModelFor :: "string \<Rightarrow> object3d \<Rightarrow> bool" where
  "isModelFor k ob = (case ob of Gltf m \<Rightarrow> modelName m = k | _ \<Rightarrow> False)"

definition instances :: "world \<Rightarrow> string \<Rightarrow> nat" where
  "instances w k = length (filter (isModelFor k) (scene w))"

definition modelKeys :: "action list \<Rightarrow> string list" where
  "modelKeys as = map (\<lambda>a. propertyKey (model a)) (filter (\<lambda>a. atype a = ''loadModel'') as)"

text \<open>
  The scene and the cache agree: no object is in the scene twice, no key is cached twice,
  every cached model is in the scene under its own key, and every model in the scene is the
  cached one of its key, created before \<open>nextId\<close>.
\<close>

definition scene_ok :: "world \<Rightarrow> bool" where
  "scene_ok w \<longleftrightarrow>
     distinct (scene w) \<and> distinct (map fst (models w))
     \<and> (\<forall>(k, m) \<in> set (models w). modelName m = k \<and> Gltf m \<in> set (scene w))
     \<and> (\<forall>ob \<in> set (scene w).
           case ob of
             Gltf m \<Rightarrow> (modelName m, m) \<in> set (models w) \<and> oid m < nextId w
           | _ \<Rightarrow> True)"

text \<open>
  The volcano topic. \<open>volcanoLoading\<close> is the state in which \<open>loadTopic\<close> returns on the
  initial scene, the asset still in flight, and \<open>volcanoLoaded\<close> the state once it has
  loaded. \<open>volcanoLoadingTwice\<close> is the state in which a second \<open>loadTopic\<close> returns when
  it is called with the first load still in flight, and \<open>volcanoTwice\<close> the state once both
  loads have settled.
\<close>

definition volcanoModel :: gltf_model where
  "volcanoModel = \<lparr>oid = 0, modelName = ''volcano'', obj_position = Vec3 0 (-1) 0,
                    obj_scale = Vec3 1.5 1.5 1.5, pointLight = False\<rparr>"

definition volcanoLoaded :: world where
  "volcanoLoaded =
     \<lparr>scene = [AmbientLight, DirectionalLight, Gltf volcanoModel],
      models = [(''volcano'', volcanoModel)],
      animations = [],
      nextId = 1, loads = 1, isVoiceEnabled = True,
      spoken = [narration (snd (hd (responses volcano)))],
      currentQuiz = quiz (snd (hd (responses volcano))),
      quizVisible = True,
      currentTopic = Some ''volcano'',
      chat = [(''AI Teacher'', ''Loading Volcano lesson...'', ''ai''),
              (''AI Teacher'', narration (snd (hd (responses volcano))), ''ai'')],
      console = [], pending = []\<rparr>"

definition volcanoTask :: "nat \<Rightarrow> task" where
  "volcanoTask n =
     \<lparr>awaited = InFlight ''volcano''
                  ''https://cdn.jsdelivr.net/gh/mrdoob/three.js@dev/examples/models/gltf/Volcano.glb''
                  (Vec3 0 (-1) 0) 1.5 n,
      current = loadModelAction ''volcano'' (Some (Vec3 0 (-1) 0)) (Some 1.5),
      remaining = []\<rparr>"

definition volcanoLoading :: world where
  "volcanoLoading =
     volcanoLoaded\<lparr>scene := [AmbientLight, DirectionalLight], models := [], nextId := 0,
                    pending := [volcanoTask 0]\<rparr>"

definition volcanoLoadingTwice :: world where
  "volcanoLoadingTwice =
     volcanoLoading
       \<lparr>loads := 2,
        spoken := spoken volcanoLoading @ [narration (snd (hd (responses volcano)))],
        chat := chat volcanoLoading @
                [(''AI Teacher'', ''Loading Volcano lesson...'', ''ai''),
                 (''AI Teacher'', narration (snd (hd (responses volcano))), ''ai'')],
        pending := [volcanoTask 0, volcanoTask 1]\<rparr>"

definition volcanoTwice :: world where
  "volcanoTwice =
     volcanoLoadingTwice
       \<lparr>scene := [AmbientLight, DirectionalLight, Gltf volcanoModel,
                  Gltf (volcanoModel\<lparr>oid := 1\<rparr>)],
        models := [(''volcano'', volcanoModel\<lparr>oid := 1\<rparr>)],
        nextId := 2,
        pending := []\<rparr>"

section \<open>Registry and resolver properties\<close>

lemma detectIntent_heart_scale: "detectIntent ''heart-anatomy'' ''scale'' = ''unknown''"
  by code_simp

text \<open>
  Claim C8. In every quiz of the static topic registry the correct answer is one of the
  options offered.
\<close>

theorem registry_quiz_answer_offered:
  "\<forall>qz \<in> set (registryQuizzes topics). correctAnswer qz \<in> set (options qz)"
  by (simp add: registryQuizzes_def topics_def solar_system_def heart_anatomy_def volcano_def)

theorem registry_quiz_answer_offered_witness:
  "\<lparr>question = ''How many chambers does the human heart have?'',
    options = [''2'', ''3'', ''4'', ''5''],
    correctAnswer = ''4'',
    correctFeedback = ''That's right! The heart has four chambers: two atria and two ventricles.'',
    incorrectFeedback = ''Actually, the human heart has four chambers: two atria and two ventricles.''\<rparr>
     \<in> set (registryQuizzes topics)
   \<and> length (registryQuizzes topics) = 3
   \<and> ''4'' \<in> set [''2'', ''3'', ''4'', ''5'']"
proof -
  let ?qz = "\<lparr>question = ''How many chambers does the human heart have?'',
    options = [''2'', ''3'', ''4'', ''5''],
    correctAnswer = ''4'',
    correctFeedback = ''That's right! The heart has four chambers: two atria and two ventricles.'',
    incorrectFeedback = ''Actually, the human heart has four chambers: two atria and two ventricles.''\<rparr>"
  have mem: "?qz \<in> set (registryQuizzes topics)"
    by (simp add: registryQuizzes_def topics_def solar_system_def heart_anatomy_def volcano_def)
  have len: "length (registryQuizzes topics) = 3"
    by (simp add: registryQuizzes_def topics_def solar_system_def heart_anatomy_def volcano_def)
  from registry_quiz_answer_offered mem have "correctAnswer ?qz \<in> set (options ?qz)"
    by (rule bspec)
  with mem len show ?thesis by simp
qed

text \<open>
  Claim C3. The intent is a function of the topic id and the query alone: the keyword rules
  tried in their fixed order on the lower-cased query, the first that applies winning, and
  \<open>unknown\<close> when none does. On the three queries of the design's examples it gives
  \<open>explain\<close>, \<open>scale\<close> and \<open>unknown\<close>, and the last is answered with the explain template
  of the heart topic.
\<close>

theorem detectIntent_follows_rules:
  "detectIntent t q = spec_resolve t q
   \<and> detectIntent ''solar-system'' ''Can you explain this?'' = ''explain''
   \<and> detectIntent ''solar-system'' ''what about the scale'' = ''scale''
   \<and> detectIntent ''heart-anatomy'' ''scale'' = ''unknown''
   \<and> processQuery topics ''heart-anatomy'' ''scale'' =
       Inr (Some \<lparr>topic = ''heart-anatomy'', intent = ''explain'',
                  response = snd (hd (responses heart_anatomy))\<rparr>)
   \<and> fst (hd (responses heart_anatomy)) = ''explain''"
proof -
  have rules: "detectIntent t q = spec_resolve t q"
    by (simp add: detectIntent_def spec_resolve_def intentRules_def includes_str_def)
  have e1: "detectIntent ''solar-system'' ''Can you explain this?'' = ''explain''"
    by code_simp
  have e2: "detectIntent ''solar-system'' ''what about the scale'' = ''scale''"
    by code_simp
  have e3: "processQuery topics ''heart-anatomy'' ''scale'' =
       Inr (Some \<lparr>topic = ''heart-anatomy'', intent = ''explain'',
                  response = snd (hd (responses heart_anatomy))\<rparr>)"
    by (simp add: processQuery_def detectIntent_heart_scale topics_def getProp_def
        heart_anatomy_def orObject_def)
  have e4: "fst (hd (responses heart_anatomy)) = ''explain''"
    by (simp add: heart_anatomy_def)
  from rules e1 e2 detectIntent_heart_scale e3 e4 show ?thesis by blast
qed

theorem detectIntent_follows_rules_witness:
  "detectIntent ''volcano'' ''Tell me about the ERUPTION'' = ''eruption''
   \<and> detectIntent ''volcano'' ''Explain the eruption'' = ''explain''
   \<and> detectIntent ''volcano'' ''what is its function'' = ''unknown''"
proof -
  have s1: "spec_resolve ''volcano'' ''Tell me about the ERUPTION'' = ''eruption''"
    by code_simp
  have s2: "spec_resolve ''volcano'' ''Explain the eruption'' = ''explain''"
    by code_simp
  have s3: "spec_resolve ''volcano'' ''what is its function'' = ''unknown''"
    by code_simp
  from s1 s2 s3
    detectIntent_follows_rules [of "''volcano''" "''Tell me about the ERUPTION''"]
    detectIntent_follows_rules [of "''volcano''" "''Explain the eruption''"]
    detectIntent_follows_rules [of "''volcano''" "''what is its function''"]
  show ?thesis by simp
qed

text \<open>
  Claim C5. On a topic of the registry \<open>processQuery\<close> always returns a response bundle,
  whatever the query. When the topic has no template for the detected intent the bundle
  carries the topic's explain template under the intent \<open>explain\<close>; when the topic has no
  explain template either, it carries the fixed narration with no actions and no quiz.
\<close>

theorem processQuery_unresolved_intent:
  assumes "map_of tps t = Some td"
  shows "\<exists>b. processQuery tps t q = Inr (Some b) \<and> topic b = t
           \<and> (map_of (responses td) (detectIntent t q) = None \<longrightarrow>
                intent b = ''explain''
                \<and> response b =
                    (case map_of (responses td) ''explain'' of
                       Some r \<Rightarrow> r
                     | None \<Rightarrow>
                         \<lparr>narration = ''I'm not sure how to answer that. Try asking me to explain this topic.'',
                          actions = [], quiz = None\<rparr>))"
  using assms
  by (cases "map_of (responses td) (detectIntent t q)")
     (simp_all add: processQuery_def getProp_def orObject_def fallbackResponse_def Let_def)

theorem processQuery_unresolved_intent_witness:
  "map_of topics ''volcano'' = Some volcano
   \<and> map_of (responses volcano) (detectIntent ''volcano'' ''hello'') = None
   \<and> processQuery topics ''volcano'' ''hello'' =
       Inr (Some \<lparr>topic = ''volcano'', intent = ''explain'',
                  response = snd (hd (responses volcano))\<rparr>)
   \<and> processQuery [(''moon'', \<lparr>name = ''Moon'', description = ''The Moon'', responses = []\<rparr>)]
        ''moon'' ''hello'' =
       Inr (Some \<lparr>topic = ''moon'', intent = ''explain'',
                  response =
                    \<lparr>narration = ''I'm not sure how to answer that. Try asking me to explain this topic.'',
                     actions = [], quiz = None\<rparr>\<rparr>)"
proof -
  have k1: "map_of topics ''volcano'' = Some volcano"
    by (simp add: topics_def)
  have i1: "detectIntent ''volcano'' ''hello'' = ''unknown''"
    by code_simp
  have n1: "map_of (responses volcano) (detectIntent ''volcano'' ''hello'') = None"
    by (simp add: i1 volcano_def)
  have x1: "map_of (responses volcano) ''explain'' = Some (snd (hd (responses volcano)))"
    by (simp add: volcano_def)
  obtain b where b: "processQuery topics ''volcano'' ''hello'' = Inr (Some b)"
      "topic b = ''volcano''" "intent b = ''explain''"
      "response b = snd (hd (responses volcano))"
    using processQuery_unresolved_intent [OF k1, of "''hello''"] n1 x1 by auto
  have r1: "processQuery topics ''volcano'' ''hello'' =
       Inr (Some \<lparr>topic = ''volcano'', intent = ''explain'',
                  response = snd (hd (responses volcano))\<rparr>)"
    using b by (cases b) simp
  let ?moon = "\<lparr>name = ''Moon'', description = ''The Moon'', responses = []\<rparr>"
  have k2: "map_of [(''moon'', ?moon)] ''moon'' = Some ?moon"
    by simp
  obtain c where c: "processQuery [(''moon'', ?moon)] ''moon'' ''hello'' = Inr (Some c)"
      "topic c = ''moon''" "intent c = ''explain''"
      "response c = \<lparr>narration = ''I'm not sure how to answer that. Try asking me to explain this topic.'',
                     actions = [], quiz = None\<rparr>"
    using processQuery_unresolved_intent [OF k2, of "''hello''"] by auto
  have r2: "processQuery [(''moon'', ?moon)] ''moon'' ''hello'' =
       Inr (Some \<lparr>topic = ''moon'', intent = ''explain'',
                  response =
                    \<lparr>narration = ''I'm not sure how to answer that. Try asking me to explain this topic.'',
                     actions = [], quiz = None\<rparr>\<rparr>)"
    using c by (cases c) simp
  from k1 n1 r1 r2 show ?thesis by blast
qed

section \<open>Executor properties\<close>

subsection \<open>The executor always returns\<close>

lemma try_catch_log_total:
  "\<exists>w'. try_catch (performAction ld a) (logActionError a) w = Inr w'"
  by (cases "performAction ld a w") (auto simp: try_catch_def logActionError_def)

lemma executeSceneActions_total: "\<exists>w'. executeSceneActions ld as w = Inr w'"
proof (induction as arbitrary: w)
  case Nil
  show ?case by simp
next
  case (Cons a as)
  obtain w1 where "try_catch (performAction ld a) (logActionError a) w = Inr w1"
    using try_catch_log_total by blast
  with Cons.IH [of w1] show ?case by simp
qed

lemma executeSceneActions_append:
  "executeSceneActions ld (as @ bs) w =
     (case executeSceneActions ld as w of
        Inl ew \<Rightarrow> Inl ew
      | Inr w' \<Rightarrow> executeSceneActions ld bs w')"
  by (induction as arbitrary: w) (auto split: sum.splits)

lemma performAction_missing_target:
  "atype a = ''animate'' \<Longrightarrow> getProp (models w) (propertyKey (object a)) = Undefined \<Longrightarrow>
   performAction ld a w = Inr w"
  by (simp add: performAction_def)

lemma loadModel_unavailable:
  "getProp (models w) k = Undefined \<Longrightarrow> map_of availableModels k = None \<Longrightarrow>
   loadModel ld k p s w = (Rejected (Error (''Model '' @ k @ '' not available'')), w)"
  by (simp add: loadModel_def)

lemma loadModel_loader_error:
  "getProp (models w) k = Undefined \<Longrightarrow> map_of availableModels k = Some url \<Longrightarrow>
   \<not> ld (loads w) url \<Longrightarrow>
   loadModel ld k p s w =
     (Rejected (LoaderError url),
      consoleError ''Error loading model:'' (LoaderError url) (w\<lparr>loads := Suc (loads w)\<rparr>))"
  by (simp add: loadModel_def)

lemma loadModel_success:
  "getProp (models w) k = Undefined \<Longrightarrow> map_of availableModels k = Some url \<Longrightarrow>
   ld (loads w) url \<Longrightarrow>
   loadModel ld k p s w =
     (let m = \<lparr>oid = nextId w, modelName = k, obj_position = default_param p (Vec3 0 0 0),
               obj_scale = Vec3 (default_param s 1) (default_param s 1) (default_param s 1),
               pointLight = (k = ''sun'')\<rparr>
      in (Resolved (Model m),
          w\<lparr>scene := scene w @ [Gltf m], models := AList.update k m (models w),
            nextId := Suc (nextId w), loads := Suc (loads w)\<rparr>))"
  by (simp add: loadModel_def Let_def)

lemma loadModel_cached:
  "getProp (models w) k = Own m \<Longrightarrow> loadModel ld k p s w = (Resolved (Model m), w)"
  by (simp add: loadModel_def)

subsection \<open>Zero parameters and defaults\<close>

lemma executeSceneActions_single:
  "executeSceneActions ld [a] w = try_catch (performAction ld a) (logActionError a) w"
  by (simp split: sum.splits)

lemma orNumber_dropZero: "orNumber (dropZero v) d = orNumber v d"
  by (simp add: orNumber_def dropZero_def)

lemma animateTarget_omitZeros: "animateTarget (omitZeros a) ob w = animateTarget a ob w"
  by (simp add: animateTarget_def omitZeros_def orNumber_dropZero)

lemma performAction_omitZeros: "performAction ld (omitZeros a) w = performAction ld a w"
proof -
  have "atype (omitZeros a) = atype a" "model (omitZeros a) = model a"
    "position (omitZeros a) = position a" "object (omitZeros a) = object a"
    "orNumber (scale (omitZeros a)) 1 = orNumber (scale a) 1"
    by (simp_all add: omitZeros_def orNumber_dropZero)
  then show ?thesis
    by (simp add: performAction_def animateTarget_omitZeros split: property.splits)
qed

lemma try_catch_omitZeros:
  "try_catch (performAction ld (omitZeros a)) (logActionError (omitZeros a)) w =
   try_catch (performAction ld a) (logActionError a) w"
proof -
  have "logActionError (omitZeros a) = logActionError a"
    by (rule ext)+ (simp add: logActionError_def omitZeros_def)
  then show ?thesis
    by (simp add: try_catch_def performAction_omitZeros)
qed

lemma executeSceneActions_omitZeros:
  "executeSceneActions ld (map omitZeros as) w = executeSceneActions ld as w"
  by (induction as arbitrary: w) (simp_all add: try_catch_omitZeros split: sum.splits)

lemma performAction_load_success:
  assumes "atype a = ''loadModel''" "getProp (models w) (propertyKey (model a)) = Undefined"
    "map_of availableModels (propertyKey (model a)) = Some url" "ld (loads w) url"
  shows "performAction ld a w =
     Inr (w\<lparr>scene := scene w @
                [Gltf \<lparr>oid = nextId w, modelName = propertyKey (model a),
                       obj_position = orObject (position a) (Vec3 0 0 0),
                       obj_scale = Vec3 (orNumber (scale a) 1) (orNumber (scale a) 1) (orNumber (scale a) 1),
                       pointLight = (propertyKey (model a) = ''sun'')\<rparr>],
            models := AList.update (propertyKey (model a))
                \<lparr>oid = nextId w, modelName = propertyKey (model a),
                  obj_position = orObject (position a) (Vec3 0 0 0),
                  obj_scale = Vec3 (orNumber (scale a) 1) (orNumber (scale a) 1) (orNumber (scale a) 1),
                  pointLight = (propertyKey (model a) = ''sun'')\<rparr> (models w),
            nextId := Suc (nextId w), loads := Suc (loads w)\<rparr>)"
  using assms by (simp add: performAction_def loadModel_success Let_def default_param_def)

lemma performAction_orbit:
  assumes "atype a = ''animate''" "animation a = Some ''orbit''"
    "getProp (models w) (propertyKey (object a)) = Own m"
  shows "performAction ld a w =
     Inr (w\<lparr>animations := animations w @
            [OrbitAnimation (Model m) (orObject (center a) (Vec3 0 0 0)) 0
               (orNumber (radius a) 3) (orNumber (speed a) 0.01)]\<rparr>)"
  using assms
  by (simp add: performAction_def animateTarget_def createOrbitAnimation_def addAnimation_def
      default_param_def Let_def)

lemma performAction_beat:
  assumes "atype a = ''animate''" "animation a = Some ''beat''"
    "getProp (models w) (propertyKey (object a)) = Own m"
  shows "performAction ld a w =
     Inr (w\<lparr>animations := animations w @
            [BeatingAnimation (Model m) (obj_scale m) 0
               (orNumber (speed a) 0.1) (orNumber (intensity a) 0.1)]\<rparr>)"
  using assms
  by (simp add: performAction_def animateTarget_def createBeatingAnimation_def addAnimation_def
      default_param_def Let_def)

lemma performAction_pulse:
  assumes "atype a = ''animate''" "animation a = Some ''pulse''"
    "getProp (models w) (propertyKey (object a)) = Own m"
  shows "performAction ld a w =
     Inr (w\<lparr>animations := animations w @
            [BeatingAnimation (Model m) (obj_scale m) 0
               (orNumber (speed a) 0.2) (orNumber (intensity a) 0.05)]\<rparr>)"
  using assms
  by (simp add: performAction_def animateTarget_def createBeatingAnimation_def addAnimation_def
      default_param_def Let_def)

lemma consoleError_fields:
  "scene (consoleError msg e w) = scene w"
  "models (consoleError msg e w) = models w"
  "animations (consoleError msg e w) = animations w"
  "nextId (consoleError msg e w) = nextId w"
  "loads (consoleError msg e w) = loads w"
  "chat (consoleError msg e w) = chat w"
  "console (consoleError msg e w) = console w @ [(msg, e)]"
  by (simp_all add: consoleError_def)

lemma heartLoaded_heart:
  "getProp (models heartLoaded) ''heart'' =
     Own \<lparr>oid = 0, modelName = ''heart'', obj_position = Vec3 0 0 0,
          obj_scale = Vec3 1.2 1.2 1.2, pointLight = False\<rparr>"
  by (simp add: heartLoaded_def initial_def getProp_def)

lemma initial_lookup:
  "getProp (models initial) ''heart'' = Undefined"
  "getProp (models initial) ''sun'' = Undefined"
  "getProp (models initial) ''earth'' = Undefined"
  "getProp (models initial) ''volcano'' = Undefined"
  "getProp (models initial) ''moon'' = Undefined"
  by (simp_all add: initial_def getProp_def objectPrototypeKeys_def)

lemma availableModels_lookup:
  "map_of availableModels ''sun'' =
     Some ''https://cdn.jsdelivr.net/gh/mrdoob/three.js@dev/examples/models/gltf/Planet.glb''"
  "map_of availableModels ''earth'' =
     Some ''https://cdn.jsdelivr.net/gh/mrdoob/three.js@dev/examples/models/gltf/Earth.glb''"
  "map_of availableModels ''heart'' =
     Some ''https://cdn.jsdelivr.net/gh/mrdoob/three.js@dev/examples/models/gltf/Heart.glb''"
  "map_of availableModels ''volcano'' =
     Some ''https://cdn.jsdelivr.net/gh/mrdoob/three.js@dev/examples/models/gltf/Volcano.glb''"
  "map_of availableModels ''moon'' = None"
  by (simp_all add: availableModels_def)

lemma performAction_inherited_target:
  assumes "atype a = ''animate''" "getProp (models w) (propertyKey (object a)) = Inherited b"
    "animation a = Some ''beat'' \<or> animation a = Some ''pulse''"
  shows "performAction ld a w = Inl (TypeError, w)"
  using assms
  by (auto simp: performAction_def animateTarget_def createBeatingAnimation_def)

lemma getProp_Undefined_iff:
  "getProp obj k = Undefined \<longleftrightarrow> k \<notin> fst ` set obj \<and> k \<notin> set objectPrototypeKeys"
proof (cases "map_of obj k")
  case None
  then have "k \<notin> fst ` set obj" by (simp add: map_of_eq_None_iff)
  with None show ?thesis by (simp add: getProp_def)
next
  case (Some v)
  then have "k \<in> fst ` set obj" by (metis map_of_eq_None_iff option.distinct(1))
  with Some show ?thesis by (simp add: getProp_def)
qed

lemma getProp_Inherited_iff:
  "getProp obj k = Inherited b \<longleftrightarrow>
     k \<notin> fst ` set obj \<and> k \<in> set objectPrototypeKeys \<and> b = k"
proof (cases "map_of obj k")
  case None
  then have "k \<notin> fst ` set obj" by (simp add: map_of_eq_None_iff)
  with None show ?thesis by (auto simp: getProp_def)
next
  case (Some v)
  then have "k \<in> fst ` set obj" by (metis map_of_eq_None_iff option.distinct(1))
  with Some show ?thesis by (simp add: getProp_def)
qed

text \<open>
  Claim C1, as the code has it. The executor never passes an exception on, and every action
  of the list is executed whatever happened to the ones before it: after any first part of
  the list the rest runs from the state that part has reached. An action whose body
  throws is caught and logged under the action's type, and the rest of the list runs from
  the state reached. Such an action is a \<open>loadModel\<close> of a model key that is not
  available, or whose asset the loader fails to fetch, and also a \<open>beat\<close> or \<open>pulse\<close>
  animation whose object key is not cached but is the name of a property of
  \<open>Object.prototype\<close>: the lookup \<open>models[object]\<close> finds the built-in, which has no
  \<open>scale\<close>, and a \<open>TypeError\<close> is thrown. An \<open>animate\<close> action whose object key is
  neither cached nor such a name, so that \<open>models[object]\<close> is \<open>undefined\<close>, throws
  nothing and logs nothing: it leaves the state as it is.
\<close>

theorem executeSceneActions_contains_failures:
  "(\<exists>w'. executeSceneActions ld as w = Inr w')
   \<and> (\<forall>e w1. performAction ld a w = Inl (e, w1) \<longrightarrow>
         executeSceneActions ld (a # as) w =
           executeSceneActions ld as
             (consoleError (''Error executing action '' @ atype a @ '':'') e w1))
   \<and> (\<forall>w1. performAction ld a w = Inr w1 \<longrightarrow>
         executeSceneActions ld (a # as) w = executeSceneActions ld as w1)
   \<and> (atype a = ''loadModel'' \<and> getProp (models w) (propertyKey (model a)) = Undefined
        \<and> map_of availableModels (propertyKey (model a)) = None \<longrightarrow>
         performAction ld a w =
           Inl (Error (''Model '' @ propertyKey (model a) @ '' not available''), w))
   \<and> (\<forall>url. atype a = ''loadModel'' \<and> getProp (models w) (propertyKey (model a)) = Undefined
        \<and> map_of availableModels (propertyKey (model a)) = Some url \<and> \<not> ld (loads w) url \<longrightarrow>
         performAction ld a w =
           Inl (LoaderError url,
                consoleError ''Error loading model:'' (LoaderError url)
                  (w\<lparr>loads := Suc (loads w)\<rparr>)))
   \<and> (atype a = ''animate'' \<and> propertyKey (object a) \<notin> fst ` set (models w)
        \<and> propertyKey (object a) \<notin> set objectPrototypeKeys \<longrightarrow>
         getProp (models w) (propertyKey (object a)) = Undefined \<and> performAction ld a w = Inr w)
   \<and> (atype a = ''animate'' \<and> propertyKey (object a) \<notin> fst ` set (models w)
        \<and> propertyKey (object a) \<in> set objectPrototypeKeys
        \<and> (animation a = Some ''beat'' \<or> animation a = Some ''pulse'') \<longrightarrow>
         getProp (models w) (propertyKey (object a)) = Inherited (propertyKey (object a))
         \<and> performAction ld a w = Inl (TypeError, w))
   \<and> (\<exists>w1. executeSceneActions ld as w = Inr w1
         \<and> executeSceneActions ld (as @ bs) w = executeSceneActions ld bs w1)"
proof -
  have total: "\<exists>w'. executeSceneActions ld as w = Inr w'"
    by (rule executeSceneActions_total)
  have caught: "\<forall>e w1. performAction ld a w = Inl (e, w1) \<longrightarrow>
         executeSceneActions ld (a # as) w =
           executeSceneActions ld as
             (consoleError (''Error executing action '' @ atype a @ '':'') e w1)"
    by (simp add: try_catch_def logActionError_def)
  have passed: "\<forall>w1. performAction ld a w = Inr w1 \<longrightarrow>
         executeSceneActions ld (a # as) w = executeSceneActions ld as w1"
    by (simp add: try_catch_def)
  have unavailable: "atype a = ''loadModel'' \<and> getProp (models w) (propertyKey (model a)) = Undefined
        \<and> map_of availableModels (propertyKey (model a)) = None \<longrightarrow>
         performAction ld a w =
           Inl (Error (''Model '' @ propertyKey (model a) @ '' not available''), w)"
    by (simp add: performAction_def loadModel_unavailable)
  have rejected: "\<forall>url. atype a = ''loadModel'' \<and> getProp (models w) (propertyKey (model a)) = Undefined
        \<and> map_of availableModels (propertyKey (model a)) = Some url \<and> \<not> ld (loads w) url \<longrightarrow>
         performAction ld a w =
           Inl (LoaderError url,
                consoleError ''Error loading model:'' (LoaderError url)
                  (w\<lparr>loads := Suc (loads w)\<rparr>))"
    by (simp add: performAction_def loadModel_loader_error)
  have skipped: "atype a = ''animate'' \<and> propertyKey (object a) \<notin> fst ` set (models w)
        \<and> propertyKey (object a) \<notin> set objectPrototypeKeys \<longrightarrow>
         getProp (models w) (propertyKey (object a)) = Undefined \<and> performAction ld a w = Inr w"
  proof (intro impI, elim conjE)
    assume t: "atype a = ''animate''"
      and k: "propertyKey (object a) \<notin> fst ` set (models w)"
         "propertyKey (object a) \<notin> set objectPrototypeKeys"
    from k have u: "getProp (models w) (propertyKey (object a)) = Undefined"
      by (simp add: getProp_Undefined_iff)
    from performAction_missing_target [OF t u] u
    show "getProp (models w) (propertyKey (object a)) = Undefined \<and> performAction ld a w = Inr w"
      by (intro conjI)
  qed
  have inherited: "atype a = ''animate'' \<and> propertyKey (object a) \<notin> fst ` set (models w)
        \<and> propertyKey (object a) \<in> set objectPrototypeKeys
        \<and> (animation a = Some ''beat'' \<or> animation a = Some ''pulse'') \<longrightarrow>
         getProp (models w) (propertyKey (object a)) = Inherited (propertyKey (object a))
         \<and> performAction ld a w = Inl (TypeError, w)"
  proof (intro impI, elim conjE)
    assume t: "atype a = ''animate''"
      and k: "propertyKey (object a) \<notin> fst ` set (models w)"
         "propertyKey (object a) \<in> set objectPrototypeKeys"
      and n: "animation a = Some ''beat'' \<or> animation a = Some ''pulse''"
    from k have u: "getProp (models w) (propertyKey (object a)) = Inherited (propertyKey (object a))"
      by (simp add: getProp_Inherited_iff)
    from performAction_inherited_target [OF t u n] u
    show "getProp (models w) (propertyKey (object a)) = Inherited (propertyKey (object a))
         \<and> performAction ld a w = Inl (TypeError, w)"
      by (intro conjI)
  qed
  from total obtain w1 where w1: "executeSceneActions ld as w = Inr w1" ..
  then have "executeSceneActions ld (as @ bs) w = executeSceneActions ld bs w1"
    by (simp add: executeSceneActions_append)
  with w1 have rest: "\<exists>w1. executeSceneActions ld as w = Inr w1
         \<and> executeSceneActions ld (as @ bs) w = executeSceneActions ld bs w1"
    by (intro exI [of _ w1] conjI)
  from total caught passed unavailable rejected skipped inherited rest show ?thesis
    by (intro conjI)
qed

theorem executeSceneActions_contains_failures_witness:
  "executeSceneActions allLoadsFail
     [loadModelAction ''moon'' None None, loadModelAction ''sun'' None None,
      scaleAnimAction ''beat'' ''sun'' None None,
      scaleAnimAction ''beat'' ''toString'' None None] initial =
   Inr (initial
        \<lparr>loads := 1,
         console :=
           [(''Error executing action loadModel:'', Error ''Model moon not available''),
            (''Error loading model:'',
             LoaderError ''https://cdn.jsdelivr.net/gh/mrdoob/three.js@dev/examples/models/gltf/Planet.glb''),
            (''Error executing action loadModel:'',
             LoaderError ''https://cdn.jsdelivr.net/gh/mrdoob/three.js@dev/examples/models/gltf/Planet.glb''),
            (''Error executing action animate:'', TypeError)]\<rparr>)"
proof -
  let ?url = "''https://cdn.jsdelivr.net/gh/mrdoob/three.js@dev/examples/models/gltf/Planet.glb''"
  let ?moon = "loadModelAction ''moon'' None None"
  let ?sun = "loadModelAction ''sun'' None None"
  let ?beat = "scaleAnimAction ''beat'' ''sun'' None None"
  let ?tos = "scaleAnimAction ''beat'' ''toString'' None None"
  let ?w1 = "consoleError (''Error executing action '' @ atype ?moon @ '':'')
               (Error (''Model '' @ propertyKey (model ?moon) @ '' not available'')) initial"
  let ?w2 = "consoleError (''Error executing action '' @ atype ?sun @ '':'') (LoaderError ?url)
               (consoleError ''Error loading model:'' (LoaderError ?url)
                  (?w1\<lparr>loads := Suc (loads ?w1)\<rparr>))"
  let ?w3 = "consoleError (''Error executing action '' @ atype ?tos @ '':'') TypeError ?w2"
  have h1: "atype ?moon = ''loadModel'' \<and> getProp (models initial) (propertyKey (model ?moon)) = Undefined
        \<and> map_of availableModels (propertyKey (model ?moon)) = None"
    by (simp add: loadModelAction_def propertyKey_def initial_lookup availableModels_lookup)
  have h2: "atype ?sun = ''loadModel'' \<and> getProp (models ?w1) (propertyKey (model ?sun)) = Undefined
        \<and> map_of availableModels (propertyKey (model ?sun)) = Some ?url
        \<and> \<not> allLoadsFail (loads ?w1) ?url"
    by (simp add: loadModelAction_def propertyKey_def consoleError_fields initial_def getProp_def
        objectPrototypeKeys_def availableModels_lookup allLoadsFail_def)
  have h3: "atype ?beat = ''animate'' \<and> propertyKey (object ?beat) \<notin> fst ` set (models ?w2)
        \<and> propertyKey (object ?beat) \<notin> set objectPrototypeKeys"
    by (simp add: scaleAnimAction_def propertyKey_def consoleError_fields initial_def
        objectPrototypeKeys_def)
  have h4: "atype ?tos = ''animate'' \<and> propertyKey (object ?tos) \<notin> fst ` set (models ?w2)
        \<and> propertyKey (object ?tos) \<in> set objectPrototypeKeys
        \<and> (animation ?tos = Some ''beat'' \<or> animation ?tos = Some ''pulse'')"
    by (simp add: scaleAnimAction_def propertyKey_def consoleError_fields initial_def
        objectPrototypeKeys_def)
  note T1 = executeSceneActions_contains_failures [of allLoadsFail "[?sun, ?beat, ?tos]" initial ?moon]
  note T2 = executeSceneActions_contains_failures [of allLoadsFail "[?beat, ?tos]" ?w1 ?sun]
  note T3 = executeSceneActions_contains_failures [of allLoadsFail "[?tos]" ?w2 ?beat]
  note T4 = executeSceneActions_contains_failures [of allLoadsFail "[]" ?w2 ?tos]
  have p1: "performAction allLoadsFail ?moon initial =
      Inl (Error (''Model '' @ propertyKey (model ?moon) @ '' not available''), initial)"
    using T1 h1 by blast
  have s1: "executeSceneActions allLoadsFail [?moon, ?sun, ?beat, ?tos] initial =
      executeSceneActions allLoadsFail [?sun, ?beat, ?tos] ?w1"
    using T1 p1 by blast
  have p2: "performAction allLoadsFail ?sun ?w1 =
      Inl (LoaderError ?url,
           consoleError ''Error loading model:'' (LoaderError ?url) (?w1\<lparr>loads := Suc (loads ?w1)\<rparr>))"
    using T2 h2 by blast
  have s2: "executeSceneActions allLoadsFail [?sun, ?beat, ?tos] ?w1 =
      executeSceneActions allLoadsFail [?beat, ?tos] ?w2"
    using T2 p2 by blast
  have p3: "performAction allLoadsFail ?beat ?w2 = Inr ?w2"
    using T3 h3 by blast
  have s3: "executeSceneActions allLoadsFail [?beat, ?tos] ?w2 =
      executeSceneActions allLoadsFail [?tos] ?w2"
    using T3 p3 by blast
  have p4: "performAction allLoadsFail ?tos ?w2 = Inl (TypeError, ?w2)"
    using T4 h4 by blast
  have s4: "executeSceneActions allLoadsFail [?tos] ?w2 = executeSceneActions allLoadsFail [] ?w3"
    using T4 p4 by blast
  have fin: "?w3 = initial
        \<lparr>loads := 1,
         console :=
           [(''Error executing action loadModel:'', Error ''Model moon not available''),
            (''Error loading model:'', LoaderError ?url),
            (''Error executing action loadModel:'', LoaderError ?url),
            (''Error executing action animate:'', TypeError)]\<rparr>"
    by (simp add: consoleError_def initial_def loadModelAction_def scaleAnimAction_def
        propertyKey_def)
  from s1 s2 s3 s4 fin show ?thesis by simp
qed

text \<open>
  Claim C1 as stated fails for the missing animation target: with no heart in the scene the
  beat animation is skipped and the console stays empty.
\<close>

theorem missing_target_not_logged:
  "getProp (models initial) (propertyKey (object (scaleAnimAction ''beat'' ''heart'' None None)))
     = Undefined
   \<and> console initial = []
   \<and> executeSceneActions allLoadsSucceed [scaleAnimAction ''beat'' ''heart'' None None] initial
     = Inr initial"
  by (simp add: initial_def scaleAnimAction_def propertyKey_def getProp_def objectPrototypeKeys_def
      try_catch_def performAction_def)

text \<open>
  Claim C6. A parameter the template omits gets its default: a loaded model the origin as
  position and scale 1; an orbit the origin as centre, speed 0.01 and radius 3; a beat speed
  0.1 and intensity 0.1; a pulse speed 0.2 and intensity 0.05.
\<close>

theorem omitted_parameters_get_defaults:
  "(atype a = ''loadModel'' \<and> getProp (models w) (propertyKey (model a)) = Undefined
      \<and> map_of availableModels (propertyKey (model a)) = Some url \<and> ld (loads w) url \<longrightarrow>
      (\<exists>g. performAction ld a w =
              Inr (w\<lparr>scene := scene w @ [Gltf g],
                     models := AList.update (propertyKey (model a)) g (models w),
                     nextId := Suc (nextId w), loads := Suc (loads w)\<rparr>)
           \<and> (position a = None \<longrightarrow> obj_position g = Vec3 0 0 0)
           \<and> (scale a = None \<longrightarrow> obj_scale g = Vec3 1 1 1)))
   \<and> (atype a = ''animate'' \<and> getProp (models w) (propertyKey (object a)) = Own m \<longrightarrow>
      (animation a = Some ''orbit'' \<longrightarrow>
        (\<exists>an. performAction ld a w = Inr (w\<lparr>animations := animations w @ [an]\<rparr>)
           \<and> target an = Model m
           \<and> (center a = None \<longrightarrow> a_center an = Vec3 0 0 0)
           \<and> (speed a = None \<longrightarrow> a_speed an = 0.01)
           \<and> (radius a = None \<longrightarrow> a_radius an = 3)))
      \<and> (animation a = Some ''beat'' \<longrightarrow>
        (\<exists>an. performAction ld a w = Inr (w\<lparr>animations := animations w @ [an]\<rparr>)
           \<and> target an = Model m
           \<and> (speed a = None \<longrightarrow> a_speed an = 0.1)
           \<and> (intensity a = None \<longrightarrow> a_intensity an = 0.1)))
      \<and> (animation a = Some ''pulse'' \<longrightarrow>
        (\<exists>an. performAction ld a w = Inr (w\<lparr>animations := animations w @ [an]\<rparr>)
           \<and> target an = Model m
           \<and> (speed a = None \<longrightarrow> a_speed an = 0.2)
           \<and> (intensity a = None \<longrightarrow> a_intensity an = 0.05))))"
proof (intro conjI impI)
  assume h: "atype a = ''loadModel'' \<and> getProp (models w) (propertyKey (model a)) = Undefined
      \<and> map_of availableModels (propertyKey (model a)) = Some url \<and> ld (loads w) url"
  show "\<exists>g. performAction ld a w =
              Inr (w\<lparr>scene := scene w @ [Gltf g],
                     models := AList.update (propertyKey (model a)) g (models w),
                     nextId := Suc (nextId w), loads := Suc (loads w)\<rparr>)
           \<and> (position a = None \<longrightarrow> obj_position g = Vec3 0 0 0)
           \<and> (scale a = None \<longrightarrow> obj_scale g = Vec3 1 1 1)"
  proof (intro exI conjI)
    show "performAction ld a w =
      Inr (w\<lparr>scene := scene w @
                [Gltf \<lparr>oid = nextId w, modelName = propertyKey (model a),
                       obj_position = orObject (position a) (Vec3 0 0 0),
                       obj_scale = Vec3 (orNumber (scale a) 1) (orNumber (scale a) 1) (orNumber (scale a) 1),
                       pointLight = (propertyKey (model a) = ''sun'')\<rparr>],
            models := AList.update (propertyKey (model a))
                \<lparr>oid = nextId w, modelName = propertyKey (model a),
                  obj_position = orObject (position a) (Vec3 0 0 0),
                  obj_scale = Vec3 (orNumber (scale a) 1) (orNumber (scale a) 1) (orNumber (scale a) 1),
                  pointLight = (propertyKey (model a) = ''sun'')\<rparr> (models w),
            nextId := Suc (nextId w), loads := Suc (loads w)\<rparr>)"
      using h by (simp add: performAction_load_success)
  qed (simp_all add: orObject_def orNumber_def)
next
  assume h: "atype a = ''animate'' \<and> getProp (models w) (propertyKey (object a)) = Own m"
    and k: "animation a = Some ''orbit''"
  show "\<exists>an. performAction ld a w = Inr (w\<lparr>animations := animations w @ [an]\<rparr>)
           \<and> target an = Model m
           \<and> (center a = None \<longrightarrow> a_center an = Vec3 0 0 0)
           \<and> (speed a = None \<longrightarrow> a_speed an = 0.01)
           \<and> (radius a = None \<longrightarrow> a_radius an = 3)"
  proof (intro exI conjI)
    show "performAction ld a w = Inr (w\<lparr>animations := animations w @
            [OrbitAnimation (Model m) (orObject (center a) (Vec3 0 0 0)) 0
               (orNumber (radius a) 3) (orNumber (speed a) 0.01)]\<rparr>)"
      using h k by (simp add: performAction_orbit)
  qed (simp_all add: orObject_def orNumber_def)
next
  assume h: "atype a = ''animate'' \<and> getProp (models w) (propertyKey (object a)) = Own m"
    and k: "animation a = Some ''beat''"
  show "\<exists>an. performAction ld a w = Inr (w\<lparr>animations := animations w @ [an]\<rparr>)
           \<and> target an = Model m
           \<and> (speed a = None \<longrightarrow> a_speed an = 0.1)
           \<and> (intensity a = None \<longrightarrow> a_intensity an = 0.1)"
  proof (intro exI conjI)
    show "performAction ld a w = Inr (w\<lparr>animations := animations w @
            [BeatingAnimation (Model m) (obj_scale m) 0
               (orNumber (speed a) 0.1) (orNumber (intensity a) 0.1)]\<rparr>)"
      using h k by (simp add: performAction_beat)
  qed (simp_all add: orNumber_def)
next
  assume h: "atype a = ''animate'' \<and> getProp (models w) (propertyKey (object a)) = Own m"
    and k: "animation a = Some ''pulse''"
  show "\<exists>an. performAction ld a w = Inr (w\<lparr>animations := animations w @ [an]\<rparr>)
           \<and> target an = Model m
           \<and> (speed a = None \<longrightarrow> a_speed an = 0.2)
           \<and> (intensity a = None \<longrightarrow> a_intensity an = 0.05)"
  proof (intro exI conjI)
    show "performAction ld a w = Inr (w\<lparr>animations := animations w @
            [BeatingAnimation (Model m) (obj_scale m) 0
               (orNumber (speed a) 0.2) (orNumber (intensity a) 0.05)]\<rparr>)"
      using h k by (simp add: performAction_pulse)
  qed (simp_all add: orNumber_def)
qed

theorem omitted_parameters_get_defaults_witness:
  "(\<exists>g. performAction allLoadsSucceed (loadModelAction ''heart'' None None) initial =
          Inr (initial\<lparr>scene := scene initial @ [Gltf g],
                       models := AList.update ''heart'' g (models initial),
                       nextId := Suc (nextId initial), loads := Suc (loads initial)\<rparr>)
        \<and> obj_position g = Vec3 0 0 0 \<and> obj_scale g = Vec3 1 1 1)
   \<and> (\<exists>an. performAction allLoadsSucceed (orbitAction ''heart'' None None None) heartLoaded =
          Inr (heartLoaded\<lparr>animations := animations heartLoaded @ [an]\<rparr>)
        \<and> target an = Model (snd (hd (models heartLoaded)))
        \<and> a_center an = Vec3 0 0 0 \<and> a_speed an = 1 / 100 \<and> a_radius an = 3)
   \<and> (\<exists>an. performAction allLoadsSucceed (scaleAnimAction ''beat'' ''heart'' None None) heartLoaded =
          Inr (heartLoaded\<lparr>animations := animations heartLoaded @ [an]\<rparr>)
        \<and> target an = Model (snd (hd (models heartLoaded)))
        \<and> a_speed an = 1 / 10 \<and> a_intensity an = 1 / 10)
   \<and> (\<exists>an. performAction allLoadsSucceed (scaleAnimAction ''pulse'' ''heart'' None None) heartLoaded =
          Inr (heartLoaded\<lparr>animations := animations heartLoaded @ [an]\<rparr>)
        \<and> target an = Model (snd (hd (models heartLoaded)))
        \<and> a_speed an = 1 / 5 \<and> a_intensity an = 1 / 20)"
proof -
  let ?h = "\<lparr>oid = 0, modelName = ''heart'', obj_position = Vec3 0 0 0,
          obj_scale = Vec3 1.2 1.2 1.2, pointLight = False\<rparr>"
  have hm: "snd (hd (models heartLoaded)) = ?h"
    by (simp add: heartLoaded_def initial_def)
  let ?url = "''https://cdn.jsdelivr.net/gh/mrdoob/three.js@dev/examples/models/gltf/Heart.glb''"
  let ?l = "loadModelAction ''heart'' None None"
  have hl: "atype ?l = ''loadModel'' \<and> getProp (models initial) (propertyKey (model ?l)) = Undefined
      \<and> map_of availableModels (propertyKey (model ?l)) = Some ?url
      \<and> allLoadsSucceed (loads initial) ?url"
    by (simp add: loadModelAction_def propertyKey_def initial_lookup availableModels_lookup
        allLoadsSucceed_def)
  have fl: "position ?l = None" "scale ?l = None" "propertyKey (model ?l) = ''heart''"
    by (simp_all add: loadModelAction_def propertyKey_def)
  from omitted_parameters_get_defaults [of ?l initial ?url allLoadsSucceed ?h] hl
  have c1: "\<exists>g. performAction allLoadsSucceed ?l initial =
          Inr (initial\<lparr>scene := scene initial @ [Gltf g],
                       models := AList.update ''heart'' g (models initial),
                       nextId := Suc (nextId initial), loads := Suc (loads initial)\<rparr>)
        \<and> obj_position g = Vec3 0 0 0 \<and> obj_scale g = Vec3 1 1 1"
    by (simp only: fl simp_thms)
  let ?o = "orbitAction ''heart'' None None None"
  have ho: "atype ?o = ''animate'' \<and> getProp (models heartLoaded) (propertyKey (object ?o)) = Own ?h"
    by (simp add: orbitAction_def propertyKey_def heartLoaded_heart)
  have fo: "animation ?o = Some ''orbit''" "center ?o = None" "speed ?o = None" "radius ?o = None"
    by (simp_all add: orbitAction_def)
  from omitted_parameters_get_defaults [of ?o heartLoaded ?url allLoadsSucceed ?h] ho fo
  have c2: "\<exists>an. performAction allLoadsSucceed ?o heartLoaded =
          Inr (heartLoaded\<lparr>animations := animations heartLoaded @ [an]\<rparr>)
        \<and> target an = Model (snd (hd (models heartLoaded)))
        \<and> a_center an = Vec3 0 0 0 \<and> a_speed an = 1 / 100 \<and> a_radius an = 3"
    by (simp add: hm)
  let ?b = "scaleAnimAction ''beat'' ''heart'' None None"
  have hb: "atype ?b = ''animate'' \<and> getProp (models heartLoaded) (propertyKey (object ?b)) = Own ?h"
    by (simp add: scaleAnimAction_def propertyKey_def heartLoaded_heart)
  have fb: "animation ?b = Some ''beat''" "speed ?b = None" "intensity ?b = None"
    by (simp_all add: scaleAnimAction_def)
  from omitted_parameters_get_defaults [of ?b heartLoaded ?url allLoadsSucceed ?h] hb fb
  have c3: "\<exists>an. performAction allLoadsSucceed ?b heartLoaded =
          Inr (heartLoaded\<lparr>animations := animations heartLoaded @ [an]\<rparr>)
        \<and> target an = Model (snd (hd (models heartLoaded)))
        \<and> a_speed an = 1 / 10 \<and> a_intensity an = 1 / 10"
    by (simp add: hm)
  let ?p = "scaleAnimAction ''pulse'' ''heart'' None None"
  have hp: "atype ?p = ''animate'' \<and> getProp (models heartLoaded) (propertyKey (object ?p)) = Own ?h"
    by (simp add: scaleAnimAction_def propertyKey_def heartLoaded_heart)
  have fp: "animation ?p = Some ''pulse''" "speed ?p = None" "intensity ?p = None"
    by (simp_all add: scaleAnimAction_def)
  from omitted_parameters_get_defaults [of ?p heartLoaded ?url allLoadsSucceed ?h] hp fp
  have c4: "\<exists>an. performAction allLoadsSucceed ?p heartLoaded =
          Inr (heartLoaded\<lparr>animations := animations heartLoaded @ [an]\<rparr>)
        \<and> target an = Model (snd (hd (models heartLoaded)))
        \<and> a_speed an = 1 / 5 \<and> a_intensity an = 1 / 20"
    by (simp add: hm)
  from c1 c2 c3 c4 show ?thesis by (intro conjI)
qed

subsection \<open>Loading the solar system into the initial scene\<close>

lemma detectIntent_explain: "detectIntent t ''explain'' = ''explain''"
proof -
  have "includes_str (toLowerCase ''explain'') ''explain''"
    by code_simp
  then show ?thesis by (simp add: detectIntent_def)
qed

lemma processQuery_explain_solar:
  "processQuery topics ''solar-system'' ''explain'' =
     Inr (Some \<lparr>topic = ''solar-system'', intent = ''explain'',
                response = snd (hd (responses solar_system))\<rparr>)"
  by (simp add: processQuery_def detectIntent_explain topics_def getProp_def solar_system_def)

lemma solar_explain_actions:
  "actions (snd (hd (responses solar_system))) =
     [loadModelAction ''sun'' (Some (Vec3 0 0 0)) (Some 1.5),
      loadModelAction ''earth'' (Some (Vec3 3 0 0)) (Some 0.7),
      orbitAction ''earth'' (Some (Vec3 0 0 0)) (Some 0.01) (Some 3)]"
  by (simp add: solar_system_def)

lemma speak_chat_fields:
  "scene (speak s w) = scene w" "models (speak s w) = models w" "nextId (speak s w) = nextId w"
  "loads (speak s w) = loads w" "pending (speak s w) = pending w"
  "scene (addChatMessage a b c w) = scene w" "models (addChatMessage a b c w) = models w"
  "nextId (addChatMessage a b c w) = nextId w" "loads (addChatMessage a b c w) = loads w"
  "pending (addChatMessage a b c w) = pending w"
  by (simp_all add: speak_def addChatMessage_def)

lemma solar_start:
  assumes "models w = []"
  shows "startSceneActions ld (actions (snd (hd (responses solar_system)))) w =
    (Some \<lparr>awaited = InFlight ''sun''
                  ''https://cdn.jsdelivr.net/gh/mrdoob/three.js@dev/examples/models/gltf/Planet.glb''
                  (Vec3 0 0 0) 1.5 (loads w),
            current = loadModelAction ''sun'' (Some (Vec3 0 0 0)) (Some 1.5),
            remaining = [loadModelAction ''earth'' (Some (Vec3 3 0 0)) (Some 0.7),
                         orbitAction ''earth'' (Some (Vec3 0 0 0)) (Some 0.01) (Some 3)]\<rparr>,
     w\<lparr>loads := Suc (loads w)\<rparr>)"
  using assms
  by (simp add: solar_explain_actions loadModelAction_def propertyKey_def startLoadModel_def
      getProp_def objectPrototypeKeys_def availableModels_def default_param_def orObject_def
      orNumber_def Let_def)

lemma loadTopic_solar_initial:
  "loadTopic allLoadsSucceed ''solar-system'' initial = Inr solarLoading"
proof -
  let ?r = "snd (hd (responses solar_system))"
  let ?w0 = "initial\<lparr>currentTopic := Some ''solar-system''\<rparr>"
  let ?w1 = "addChatMessage ''AI Teacher'' ''Loading Solar System lesson...'' ''ai'' ?w0"
  have g: "getProp topics ''solar-system'' = Own solar_system"
    by (simp add: getProp_def topics_def)
  have n: "''Loading '' @ name solar_system @ '' lesson...'' = ''Loading Solar System lesson...''"
    by (simp add: solar_system_def)
  have c: "clearScene ?w0 = ?w0"
    by (simp add: clearScene_def initial_def)
  obtain qz where qz: "quiz ?r = Some qz"
    by (simp add: solar_system_def)
  have m: "models ?w1 = []"
    by (simp add: speak_chat_fields initial_def)
  have "loadTopic allLoadsSucceed ''solar-system'' initial =
      Inr (loadLesson allLoadsSucceed ''solar-system'' (name solar_system) ?w0)"
    by (simp add: loadTopic_def g c)
  also have "loadLesson allLoadsSucceed ''solar-system'' (name solar_system) ?w0 =
      handleAIResponse allLoadsSucceed
        (Some \<lparr>topic = ''solar-system'', intent = ''explain'', response = ?r\<rparr>) ?w1"
    unfolding loadLesson_def n by (simp add: processQuery_explain_solar)
  also have "\<dots> = solarLoading"
    using m
    by (simp add: handleAIResponse_def solar_start speak_chat_fields suspend_def displayQuiz_def
        speak_def qz addChatMessage_def initial_def solarLoading_def solarLoaded_def
        del: startSceneActions.simps)
  finally show ?thesis .
qed

lemma resume_solarLoading:
  "resume allLoadsSucceed 0 (resume allLoadsSucceed 0 solarLoading) = solarLoaded"
  by (simp add: resume_def resumeTask_def settleLoad_def suspend_def allLoadsSucceed_def
      solarLoading_def solarLoaded_def sunModel_def earthModel_def
      try_catch_def performAction_def loadModelAction_def orbitAction_def propertyKey_def
      startLoadModel_def getProp_def objectPrototypeKeys_def availableModels_def
      default_param_def orObject_def orNumber_def animateTarget_def createOrbitAnimation_def
      addAnimation_def Let_def)

text \<open>
  Claim C10. A numeric parameter given as 0 is replaced by its default, exactly as an omitted
  one is: the executor does the same on an action and on the action with its zero parameters
  left out, and a scale, speed, radius or intensity of 0 ends as 1, as the animation's
  default speed, as 3 and as the animation's default intensity.
\<close>

theorem explicit_zero_gets_default:
  "performAction ld (omitZeros a) w = performAction ld a w
   \<and> executeSceneActions ld (map omitZeros as) w = executeSceneActions ld as w
   \<and> (atype a = ''loadModel'' \<and> getProp (models w) (propertyKey (model a)) = Undefined
      \<and> map_of availableModels (propertyKey (model a)) = Some url \<and> ld (loads w) url \<longrightarrow>
      (\<exists>g. performAction ld a w =
              Inr (w\<lparr>scene := scene w @ [Gltf g],
                     models := AList.update (propertyKey (model a)) g (models w),
                     nextId := Suc (nextId w), loads := Suc (loads w)\<rparr>)
           \<and> (scale a = Some 0 \<longrightarrow> obj_scale g = Vec3 1 1 1)))
   \<and> (atype a = ''animate'' \<and> getProp (models w) (propertyKey (object a)) = Own m \<longrightarrow>
      (animation a = Some ''orbit'' \<longrightarrow>
        (\<exists>an. performAction ld a w = Inr (w\<lparr>animations := animations w @ [an]\<rparr>)
           \<and> target an = Model m
           \<and> (speed a = Some 0 \<longrightarrow> a_speed an = 0.01)
           \<and> (radius a = Some 0 \<longrightarrow> a_radius an = 3)))
      \<and> (animation a = Some ''beat'' \<longrightarrow>
        (\<exists>an. performAction ld a w = Inr (w\<lparr>animations := animations w @ [an]\<rparr>)
           \<and> target an = Model m
           \<and> (speed a = Some 0 \<longrightarrow> a_speed an = 0.1)
           \<and> (intensity a = Some 0 \<longrightarrow> a_intensity an = 0.1)))
      \<and> (animation a = Some ''pulse'' \<longrightarrow>
        (\<exists>an. performAction ld a w = Inr (w\<lparr>animations := animations w @ [an]\<rparr>)
           \<and> target an = Model m
           \<and> (speed a = Some 0 \<longrightarrow> a_speed an = 0.2)
           \<and> (intensity a = Some 0 \<longrightarrow> a_intensity an = 0.05))))"
proof (intro conjI impI)
  show "performAction ld (omitZeros a) w = performAction ld a w"
    by (rule performAction_omitZeros)
next
  show "executeSceneActions ld (map omitZeros as) w = executeSceneActions ld as w"
    by (rule executeSceneActions_omitZeros)
next
  assume h: "atype a = ''loadModel'' \<and> getProp (models w) (propertyKey (model a)) = Undefined
      \<and> map_of availableModels (propertyKey (model a)) = Some url \<and> ld (loads w) url"
  show "\<exists>g. performAction ld a w =
              Inr (w\<lparr>scene := scene w @ [Gltf g],
                     models := AList.update (propertyKey (model a)) g (models w),
                     nextId := Suc (nextId w), loads := Suc (loads w)\<rparr>)
           \<and> (scale a = Some 0 \<longrightarrow> obj_scale g = Vec3 1 1 1)"
  proof (intro exI conjI)
    show "performAction ld a w =
      Inr (w\<lparr>scene := scene w @
                [Gltf \<lparr>oid = nextId w, modelName = propertyKey (model a),
                       obj_position = orObject (position a) (Vec3 0 0 0),
                       obj_scale = Vec3 (orNumber (scale a) 1) (orNumber (scale a) 1) (orNumber (scale a) 1),
                       pointLight = (propertyKey (model a) = ''sun'')\<rparr>],
            models := AList.update (propertyKey (model a))
                \<lparr>oid = nextId w, modelName = propertyKey (model a),
                  obj_position = orObject (position a) (Vec3 0 0 0),
                  obj_scale = Vec3 (orNumber (scale a) 1) (orNumber (scale a) 1) (orNumber (scale a) 1),
                  pointLight = (propertyKey (model a) = ''sun'')\<rparr> (models w),
            nextId := Suc (nextId w), loads := Suc (loads w)\<rparr>)"
      using h by (simp add: performAction_load_success)
  qed (simp_all add: orNumber_def)
next
  assume h: "atype a = ''animate'' \<and> getProp (models w) (propertyKey (object a)) = Own m"
    and k: "animation a = Some ''orbit''"
  show "\<exists>an. performAction ld a w = Inr (w\<lparr>animations := animations w @ [an]\<rparr>)
           \<and> target an = Model m
           \<and> (speed a = Some 0 \<longrightarrow> a_speed an = 0.01)
           \<and> (radius a = Some 0 \<longrightarrow> a_radius an = 3)"
  proof (intro exI conjI)
    show "performAction ld a w = Inr (w\<lparr>animations := animations w @
            [OrbitAnimation (Model m) (orObject (center a) (Vec3 0 0 0)) 0
               (orNumber (radius a) 3) (orNumber (speed a) 0.01)]\<rparr>)"
      using h k by (simp add: performAction_orbit)
  qed (simp_all add: orNumber_def)
next
  assume h: "atype a = ''animate'' \<and> getProp (models w) (propertyKey (object a)) = Own m"
    and k: "animation a = Some ''beat''"
  show "\<exists>an. performAction ld a w = Inr (w\<lparr>animations := animations w @ [an]\<rparr>)
           \<and> target an = Model m
           \<and> (speed a = Some 0 \<longrightarrow> a_speed an = 0.1)
           \<and> (intensity a = Some 0 \<longrightarrow> a_intensity an = 0.1)"
  proof (intro exI conjI)
    show "performAction ld a w = Inr (w\<lparr>animations := animations w @
            [BeatingAnimation (Model m) (obj_scale m) 0
               (orNumber (speed a) 0.1) (orNumber (intensity a) 0.1)]\<rparr>)"
      using h k by (simp add: performAction_beat)
  qed (simp_all add: orNumber_def)
next
  assume h: "atype a = ''animate'' \<and> getProp (models w) (propertyKey (object a)) = Own m"
    and k: "animation a = Some ''pulse''"
  show "\<exists>an. performAction ld a w = Inr (w\<lparr>animations := animations w @ [an]\<rparr>)
           \<and> target an = Model m
           \<and> (speed a = Some 0 \<longrightarrow> a_speed an = 0.2)
           \<and> (intensity a = Some 0 \<longrightarrow> a_intensity an = 0.05)"
  proof (intro exI conjI)
    show "performAction ld a w = Inr (w\<lparr>animations := animations w @
            [BeatingAnimation (Model m) (obj_scale m) 0
               (orNumber (speed a) 0.2) (orNumber (intensity a) 0.05)]\<rparr>)"
      using h k by (simp add: performAction_pulse)
  qed (simp_all add: orNumber_def)
qed

theorem explicit_zero_gets_default_witness:
  "performAction allLoadsSucceed (loadModelAction ''heart'' None (Some 0)) initial =
     performAction allLoadsSucceed (loadModelAction ''heart'' None None) initial
   \<and> (\<exists>g. performAction allLoadsSucceed (loadModelAction ''heart'' None (Some 0)) initial =
          Inr (initial\<lparr>scene := scene initial @ [Gltf g],
                       models := AList.update ''heart'' g (models initial),
                       nextId := Suc (nextId initial), loads := Suc (loads initial)\<rparr>)
        \<and> obj_scale g = Vec3 1 1 1)
   \<and> (\<exists>an. performAction allLoadsSucceed (orbitAction ''heart'' None (Some 0) (Some 0)) heartLoaded =
          Inr (heartLoaded\<lparr>animations := animations heartLoaded @ [an]\<rparr>)
        \<and> target an = Model (snd (hd (models heartLoaded)))
        \<and> a_speed an = 1 / 100 \<and> a_radius an = 3)
   \<and> (\<exists>an. performAction allLoadsSucceed (scaleAnimAction ''beat'' ''heart'' (Some 0) (Some 0)) heartLoaded =
          Inr (heartLoaded\<lparr>animations := animations heartLoaded @ [an]\<rparr>)
        \<and> target an = Model (snd (hd (models heartLoaded)))
        \<and> a_speed an = 1 / 10 \<and> a_intensity an = 1 / 10)
   \<and> (\<exists>an. performAction allLoadsSucceed (scaleAnimAction ''pulse'' ''heart'' (Some 0) (Some 0)) heartLoaded =
          Inr (heartLoaded\<lparr>animations := animations heartLoaded @ [an]\<rparr>)
        \<and> target an = Model (snd (hd (models heartLoaded)))
        \<and> a_speed an = 1 / 5 \<and> a_intensity an = 1 / 20)"
proof -
  let ?h = "\<lparr>oid = 0, modelName = ''heart'', obj_position = Vec3 0 0 0,
          obj_scale = Vec3 1.2 1.2 1.2, pointLight = False\<rparr>"
  have hm: "snd (hd (models heartLoaded)) = ?h"
    by (simp add: heartLoaded_def initial_def)
  let ?url = "''https://cdn.jsdelivr.net/gh/mrdoob/three.js@dev/examples/models/gltf/Heart.glb''"
  let ?l = "loadModelAction ''heart'' None (Some 0)"
  have oz: "omitZeros ?l = loadModelAction ''heart'' None None"
    by (simp add: omitZeros_def loadModelAction_def dropZero_def)
  have hl: "atype ?l = ''loadModel'' \<and> getProp (models initial) (propertyKey (model ?l)) = Undefined
      \<and> map_of availableModels (propertyKey (model ?l)) = Some ?url
      \<and> allLoadsSucceed (loads initial) ?url"
    by (simp add: loadModelAction_def propertyKey_def initial_lookup availableModels_lookup
        allLoadsSucceed_def)
  have fl: "scale ?l = Some 0" "propertyKey (model ?l) = ''heart''"
    by (simp_all add: loadModelAction_def propertyKey_def)
  note T1 = explicit_zero_gets_default [of allLoadsSucceed ?l initial "[]" ?url ?h]
  from T1 have c0: "performAction allLoadsSucceed ?l initial =
     performAction allLoadsSucceed (loadModelAction ''heart'' None None) initial"
    by (simp only: oz)
  from T1 hl
  have c1: "\<exists>g. performAction allLoadsSucceed ?l initial =
          Inr (initial\<lparr>scene := scene initial @ [Gltf g],
                       models := AList.update ''heart'' g (models initial),
                       nextId := Suc (nextId initial), loads := Suc (loads initial)\<rparr>)
        \<and> obj_scale g = Vec3 1 1 1"
    by (simp only: fl simp_thms)
  let ?o = "orbitAction ''heart'' None (Some 0) (Some 0)"
  have ho: "atype ?o = ''animate'' \<and> getProp (models heartLoaded) (propertyKey (object ?o)) = Own ?h"
    by (simp add: orbitAction_def propertyKey_def heartLoaded_heart)
  have fo: "animation ?o = Some ''orbit''" "speed ?o = Some 0" "radius ?o = Some 0"
    by (simp_all add: orbitAction_def)
  from explicit_zero_gets_default [of allLoadsSucceed ?o heartLoaded "[]" ?url ?h] ho fo
  have c2: "\<exists>an. performAction allLoadsSucceed ?o heartLoaded =
          Inr (heartLoaded\<lparr>animations := animations heartLoaded @ [an]\<rparr>)
        \<and> target an = Model (snd (hd (models heartLoaded)))
        \<and> a_speed an = 1 / 100 \<and> a_radius an = 3"
    by (simp add: hm)
  let ?b = "scaleAnimAction ''beat'' ''heart'' (Some 0) (Some 0)"
  have hb: "atype ?b = ''animate'' \<and> getProp (models heartLoaded) (propertyKey (object ?b)) = Own ?h"
    by (simp add: scaleAnimAction_def propertyKey_def heartLoaded_heart)
  have fb: "animation ?b = Some ''beat''" "speed ?b = Some 0" "intensity ?b = Some 0"
    by (simp_all add: scaleAnimAction_def)
  from explicit_zero_gets_default [of allLoadsSucceed ?b heartLoaded "[]" ?url ?h] hb fb
  have c3: "\<exists>an. performAction allLoadsSucceed ?b heartLoaded =
          Inr (heartLoaded\<lparr>animations := animations heartLoaded @ [an]\<rparr>)
        \<and> target an = Model (snd (hd (models heartLoaded)))
        \<and> a_speed an = 1 / 10 \<and> a_intensity an = 1 / 10"
    by (simp add: hm)
  let ?p = "scaleAnimAction ''pulse'' ''heart'' (Some 0) (Some 0)"
  have hp: "atype ?p = ''animate'' \<and> getProp (models heartLoaded) (propertyKey (object ?p)) = Own ?h"
    by (simp add: scaleAnimAction_def propertyKey_def heartLoaded_heart)
  have fp: "animation ?p = Some ''pulse''" "speed ?p = Some 0" "intensity ?p = Some 0"
    by (simp_all add: scaleAnimAction_def)
  from explicit_zero_gets_default [of allLoadsSucceed ?p heartLoaded "[]" ?url ?h] hp fp
  have c4: "\<exists>an. performAction allLoadsSucceed ?p heartLoaded =
          Inr (heartLoaded\<lparr>animations := animations heartLoaded @ [an]\<rparr>)
        \<and> target an = Model (snd (hd (models heartLoaded)))
        \<and> a_speed an = 1 / 5 \<and> a_intensity an = 1 / 20"
    by (simp add: hm)
  from c0 c1 c2 c3 c4 show ?thesis by (intro conjI)
qed

subsection \<open>Single steps of the executor\<close>

lemma executeSceneActions_Cons:
  "executeSceneActions ld [a] w = Inr w1 \<Longrightarrow>
   executeSceneActions ld (a # as) w = executeSceneActions ld as w1"
  by (simp split: sum.splits)

lemma executeSceneActions_failed:
  "performAction ld a w = Inl (e, w1) \<Longrightarrow>
   executeSceneActions ld [a] w =
     Inr (consoleError (''Error executing action '' @ atype a @ '':'') e w1)"
  by (simp add: try_catch_def logActionError_def)

lemma executeSceneActions_passed:
  "performAction ld a w = Inr w1 \<Longrightarrow> executeSceneActions ld [a] w = Inr w1"
  by (simp add: try_catch_def)

lemma getProp_update_same: "getProp (AList.update k v al) k = Own v"
  by (simp add: getProp_def update_conv')

text \<open>
  Claim C9. \<open>loadModel\<close> on a key that is in the cache resolves with the cached model and
  leaves the state as it is, whatever position and scale it is called with. So the scale
  template of the solar system, run when the sun and the earth are loaded, only registers
  its orbit animation: no model is added, moved or rescaled.
\<close>

theorem loadModel_cached_unchanged:
  "(getProp (models w) k = Own m \<longrightarrow> loadModel ld k p s w = (Resolved (Model m), w))
   \<and> (atype a = ''loadModel'' \<and> getProp (models w) (propertyKey (model a)) = Own m \<longrightarrow>
        performAction ld a w = Inr w)
   \<and> (getProp (models w) ''sun'' = Own sm \<and> getProp (models w) ''earth'' = Own em
        \<and> map_of (responses solar_system) ''scale'' = Some r \<longrightarrow>
        executeSceneActions ld (actions r) w =
          Inr (w\<lparr>animations := animations w @
                 [OrbitAnimation (Model em) (Vec3 0 0 0) 0 5 0.005]\<rparr>))"
proof (intro conjI impI)
  assume "getProp (models w) k = Own m"
  then show "loadModel ld k p s w = (Resolved (Model m), w)"
    by (rule loadModel_cached)
next
  assume "atype a = ''loadModel'' \<and> getProp (models w) (propertyKey (model a)) = Own m"
  then show "performAction ld a w = Inr w"
    by (simp add: performAction_def loadModel_cached)
next
  assume h: "getProp (models w) ''sun'' = Own sm \<and> getProp (models w) ''earth'' = Own em
        \<and> map_of (responses solar_system) ''scale'' = Some r"
  then have r: "actions r =
     [loadModelAction ''sun'' (Some (Vec3 0 0 0)) (Some 2),
      loadModelAction ''earth'' (Some (Vec3 5 0 0)) (Some 0.2),
      orbitAction ''earth'' (Some (Vec3 0 0 0)) (Some 0.005) (Some 5)]"
    by (auto simp: solar_system_def)
  have s1: "performAction ld (loadModelAction ''sun'' (Some (Vec3 0 0 0)) (Some 2)) w = Inr w"
    using h by (simp add: performAction_def loadModel_cached loadModelAction_def propertyKey_def)
  have s2: "performAction ld (loadModelAction ''earth'' (Some (Vec3 5 0 0)) (Some 0.2)) w = Inr w"
    using h by (simp add: performAction_def loadModel_cached loadModelAction_def propertyKey_def)
  have s3: "performAction ld (orbitAction ''earth'' (Some (Vec3 0 0 0)) (Some 0.005) (Some 5)) w =
      Inr (w\<lparr>animations := animations w @ [OrbitAnimation (Model em) (Vec3 0 0 0) 0 5 0.005]\<rparr>)"
    using h
    by (subst performAction_orbit [where m = em])
       (simp_all add: orbitAction_def propertyKey_def orObject_def orNumber_def)
  show "executeSceneActions ld (actions r) w =
          Inr (w\<lparr>animations := animations w @
                 [OrbitAnimation (Model em) (Vec3 0 0 0) 0 5 0.005]\<rparr>)"
    unfolding r
    by (simp only: executeSceneActions.simps try_catch_def s1 s2 s3 sum.case)
qed

theorem loadModel_cached_unchanged_witness:
  "loadTopic allLoadsSucceed ''solar-system'' initial = Inr solarLoading
   \<and> resume allLoadsSucceed 0 (resume allLoadsSucceed 0 solarLoading) = solarLoaded
   \<and> obj_position earthModel = Vec3 3 0 0
   \<and> obj_scale earthModel = Vec3 (7 / 10) (7 / 10) (7 / 10)
   \<and> loadModel allLoadsSucceed ''earth'' (Some (Vec3 5 0 0)) (Some (1 / 5)) solarLoaded =
       (Resolved (Model earthModel), solarLoaded)
   \<and> executeSceneActions allLoadsSucceed (actions (snd (responses solar_system ! 1))) solarLoaded =
       Inr (solarLoaded\<lparr>animations := animations solarLoaded @
              [OrbitAnimation (Model earthModel) (Vec3 0 0 0) 0 5 (1 / 200)]\<rparr>)"
proof -
  have e: "getProp (models solarLoaded) ''earth'' = Own earthModel"
    by (simp add: solarLoaded_def getProp_def)
  have su: "getProp (models solarLoaded) ''sun'' = Own sunModel"
    by (simp add: solarLoaded_def getProp_def)
  have r: "map_of (responses solar_system) ''scale'' = Some (snd (responses solar_system ! 1))"
    by (simp add: solar_system_def)
  note T = loadModel_cached_unchanged
    [of solarLoaded "''earth''" earthModel allLoadsSucceed "Some (Vec3 5 0 0)" "Some (1 / 5)"
        "loadModelAction ''earth'' None None" sunModel earthModel "snd (responses solar_system ! 1)"]
  from T e have c1: "loadModel allLoadsSucceed ''earth'' (Some (Vec3 5 0 0)) (Some (1 / 5)) solarLoaded =
       (Resolved (Model earthModel), solarLoaded)"
    by (simp only: simp_thms)
  from T e su r have c2: "executeSceneActions allLoadsSucceed (actions (snd (responses solar_system ! 1))) solarLoaded =
       Inr (solarLoaded\<lparr>animations := animations solarLoaded @
              [OrbitAnimation (Model earthModel) (Vec3 0 0 0) 0 5 (1 / 200)]\<rparr>)"
    by simp
  have c3: "obj_position earthModel = Vec3 3 0 0"
    "obj_scale earthModel = Vec3 (7 / 10) (7 / 10) (7 / 10)"
    by (simp_all add: earthModel_def)
  from loadTopic_solar_initial resume_solarLoading c3 c1 c2 show ?thesis by (intro conjI)
qed

lemma executeSceneActions_sequential:
  "\<exists>w1 w2. executeSceneActions ld as w = Inr w1 \<and> executeSceneActions ld bs w1 = Inr w2
     \<and> executeSceneActions ld (as @ bs) w = Inr w2"
proof -
  obtain w1 where w1: "executeSceneActions ld as w = Inr w1"
    using executeSceneActions_total by blast
  obtain w2 where w2: "executeSceneActions ld bs w1 = Inr w2"
    using executeSceneActions_total by blast
  have "executeSceneActions ld (as @ bs) w = Inr w2"
    by (simp add: executeSceneActions_append w1 w2)
  with w1 w2 show ?thesis by blast
qed

lemma load_then_animate_success:
  assumes l: "atype l = ''loadModel''" "model l = Some k"
    and an: "atype an = ''animate''" "object an = Some k" "animation an = Some ''orbit''"
    and u: "getProp (models w) k = Undefined"
    and av: "map_of availableModels k = Some url" and ok: "ld (loads w) url"
  shows "\<exists>w1 w2 m. executeSceneActions ld [l] w = Inr w1
       \<and> executeSceneActions ld [an] w1 = Inr w2
       \<and> executeSceneActions ld [l, an] w = Inr w2
       \<and> getProp (models w1) k = Own m \<and> oid m = nextId w \<and> Gltf m \<in> set (scene w1)
       \<and> animations w2 = animations w @
            [OrbitAnimation (Model m) (orObject (center an) (Vec3 0 0 0)) 0
               (orNumber (radius an) 3) (orNumber (speed an) 0.01)]"
proof -
  let ?m = "\<lparr>oid = nextId w, modelName = k,
             obj_position = orObject (position l) (Vec3 0 0 0),
             obj_scale = Vec3 (orNumber (scale l) 1) (orNumber (scale l) 1) (orNumber (scale l) 1),
             pointLight = (k = ''sun'')\<rparr>"
  let ?w1 = "w\<lparr>scene := scene w @ [Gltf ?m], models := AList.update k ?m (models w),
             nextId := Suc (nextId w), loads := Suc (loads w)\<rparr>"
  let ?w2 = "?w1\<lparr>animations := animations ?w1 @
            [OrbitAnimation (Model ?m) (orObject (center an) (Vec3 0 0 0)) 0
               (orNumber (radius an) 3) (orNumber (speed an) 0.01)]\<rparr>"
  have pk: "propertyKey (model l) = k" "propertyKey (object an) = k"
    using l an by (simp_all add: propertyKey_def)
  have "performAction ld l w = Inr ?w1"
    using performAction_load_success [of l w url ld] l u av ok by (simp add: propertyKey_def)
  then have e1: "executeSceneActions ld [l] w = Inr ?w1"
    by (rule executeSceneActions_passed)
  have g: "getProp (models ?w1) k = Own ?m"
    by (simp add: getProp_update_same)
  have "performAction ld an ?w1 = Inr ?w2"
    using performAction_orbit [of an ?w1 ?m ld] an g by (simp add: propertyKey_def)
  then have e2: "executeSceneActions ld [an] ?w1 = Inr ?w2"
    by (rule executeSceneActions_passed)
  have e3: "executeSceneActions ld [l, an] w = Inr ?w2"
    using executeSceneActions_Cons [OF e1, of "[an]"] e2 by simp
  have f: "oid ?m = nextId w" "Gltf ?m \<in> set (scene ?w1)"
    "animations ?w2 = animations w @
            [OrbitAnimation (Model ?m) (orObject (center an) (Vec3 0 0 0)) 0
               (orNumber (radius an) 3) (orNumber (speed an) 0.01)]"
    by simp_all
  show ?thesis
    by (intro exI conjI) (rule e1 e2 e3 g f)+
qed

lemma load_then_animate_failure:
  assumes l: "atype l = ''loadModel''" "model l = Some k"
    and an: "atype an = ''animate''" "object an = Some k"
    and u: "getProp (models w) k = Undefined"
    and bad: "map_of availableModels k = None
              \<or> (\<exists>url. map_of availableModels k = Some url \<and> \<not> ld (loads w) url)"
  shows "\<exists>w1. executeSceneActions ld [l] w = Inr w1
       \<and> executeSceneActions ld [an] w1 = Inr w1
       \<and> executeSceneActions ld [l, an] w = Inr w1
       \<and> getProp (models w1) k = Undefined
       \<and> animations w1 = animations w \<and> scene w1 = scene w \<and> models w1 = models w"
proof -
  have pk: "propertyKey (model l) = k" "propertyKey (object an) = k"
    using l an by (simp_all add: propertyKey_def)
  obtain e w0 where p: "performAction ld l w = Inl (e, w0)"
    and same: "models w0 = models w" "animations w0 = animations w" "scene w0 = scene w"
  proof (cases "map_of availableModels k")
    case None
    then have "performAction ld l w = Inl (Error (''Model '' @ k @ '' not available''), w)"
      using l u by (simp add: performAction_def propertyKey_def loadModel_unavailable)
    then show ?thesis using that by blast
  next
    case (Some url)
    with bad have "\<not> ld (loads w) url" by simp
    then have "performAction ld l w =
        Inl (LoaderError url,
             consoleError ''Error loading model:'' (LoaderError url) (w\<lparr>loads := Suc (loads w)\<rparr>))"
      using l u Some by (simp add: performAction_def propertyKey_def loadModel_loader_error)
    then show ?thesis using that [of "LoaderError url"
        "consoleError ''Error loading model:'' (LoaderError url) (w\<lparr>loads := Suc (loads w)\<rparr>)"]
      by (simp add: consoleError_fields)
  qed
  let ?w1 = "consoleError (''Error executing action '' @ atype l @ '':'') e w0"
  have e1: "executeSceneActions ld [l] w = Inr ?w1"
    using p by (rule executeSceneActions_failed)
  have f: "models ?w1 = models w" "animations ?w1 = animations w" "scene ?w1 = scene w"
    using same by (simp_all add: consoleError_fields)
  have g: "getProp (models ?w1) k = Undefined"
    using u f by simp
  have "performAction ld an ?w1 = Inr ?w1"
    using an g by (simp add: performAction_missing_target propertyKey_def)
  then have e2: "executeSceneActions ld [an] ?w1 = Inr ?w1"
    by (rule executeSceneActions_passed)
  have e3: "executeSceneActions ld [l, an] w = Inr ?w1"
    using executeSceneActions_Cons [OF e1, of "[an]"] e2 by simp
  show ?thesis
    by (intro exI conjI) (rule e1 e2 e3 g f)+
qed

text \<open>
  Claim C2. The executor runs the list in order, each action from the state in which the
  one before it has completed. For a \<open>loadModel\<close> followed by an \<open>animate\<close> of the same
  key, not yet in the scene: when the load succeeds the animation is registered on the model
  the load has just created; when the load fails the animation is still run, finds no
  target, throws nothing and leaves the state as the failed load left it.
\<close>

theorem executeSceneActions_in_list_order:
  "(\<exists>w1 w2. executeSceneActions ld as w = Inr w1 \<and> executeSceneActions ld bs w1 = Inr w2
       \<and> executeSceneActions ld (as @ bs) w = Inr w2)
   \<and> (atype l = ''loadModel'' \<and> model l = Some k \<and> atype an = ''animate'' \<and> object an = Some k
        \<and> getProp (models w) k = Undefined \<longrightarrow>
       (map_of availableModels k = Some url \<and> ld (loads w) url \<and> animation an = Some ''orbit'' \<longrightarrow>
          (\<exists>w1 w2 m. executeSceneActions ld [l] w = Inr w1
             \<and> executeSceneActions ld [an] w1 = Inr w2
             \<and> executeSceneActions ld [l, an] w = Inr w2
             \<and> getProp (models w1) k = Own m \<and> oid m = nextId w \<and> Gltf m \<in> set (scene w1)
             \<and> animations w2 = animations w @
                  [OrbitAnimation (Model m) (orObject (center an) (Vec3 0 0 0)) 0
                     (orNumber (radius an) 3) (orNumber (speed an) 0.01)]))
       \<and> (map_of availableModels k = None
            \<or> (\<exists>u. map_of availableModels k = Some u \<and> \<not> ld (loads w) u) \<longrightarrow>
          (\<exists>w1. executeSceneActions ld [l] w = Inr w1
             \<and> executeSceneActions ld [an] w1 = Inr w1
             \<and> executeSceneActions ld [l, an] w = Inr w1
             \<and> getProp (models w1) k = Undefined
             \<and> animations w1 = animations w \<and> scene w1 = scene w \<and> models w1 = models w)))"
proof (intro conjI impI)
  show "\<exists>w1 w2. executeSceneActions ld as w = Inr w1 \<and> executeSceneActions ld bs w1 = Inr w2
       \<and> executeSceneActions ld (as @ bs) w = Inr w2"
    by (rule executeSceneActions_sequential)
next
  assume h: "atype l = ''loadModel'' \<and> model l = Some k \<and> atype an = ''animate'' \<and> object an = Some k
        \<and> getProp (models w) k = Undefined"
    and s: "map_of availableModels k = Some url \<and> ld (loads w) url \<and> animation an = Some ''orbit''"
  show "\<exists>w1 w2 m. executeSceneActions ld [l] w = Inr w1
             \<and> executeSceneActions ld [an] w1 = Inr w2
             \<and> executeSceneActions ld [l, an] w = Inr w2
             \<and> getProp (models w1) k = Own m \<and> oid m = nextId w \<and> Gltf m \<in> set (scene w1)
             \<and> animations w2 = animations w @
                  [OrbitAnimation (Model m) (orObject (center an) (Vec3 0 0 0)) 0
                     (orNumber (radius an) 3) (orNumber (speed an) 0.01)]"
    by (insert h s, elim conjE, intro load_then_animate_success; assumption)
next
  assume h: "atype l = ''loadModel'' \<and> model l = Some k \<and> atype an = ''animate'' \<and> object an = Some k
        \<and> getProp (models w) k = Undefined"
    and s: "map_of availableModels k = None
            \<or> (\<exists>u. map_of availableModels k = Some u \<and> \<not> ld (loads w) u)"
  show "\<exists>w1. executeSceneActions ld [l] w = Inr w1
             \<and> executeSceneActions ld [an] w1 = Inr w1
             \<and> executeSceneActions ld [l, an] w = Inr w1
             \<and> getProp (models w1) k = Undefined
             \<and> animations w1 = animations w \<and> scene w1 = scene w \<and> models w1 = models w"
    by (insert h s, elim conjE, intro load_then_animate_failure; assumption)
qed

theorem executeSceneActions_in_list_order_witness:
  "(\<exists>w1 w2 m.
       executeSceneActions allLoadsSucceed [loadModelAction ''sun'' None None] initial = Inr w1
     \<and> executeSceneActions allLoadsSucceed [orbitAction ''sun'' None None None] w1 = Inr w2
     \<and> executeSceneActions allLoadsSucceed
           [loadModelAction ''sun'' None None, orbitAction ''sun'' None None None] initial = Inr w2
     \<and> getProp (models w1) ''sun'' = Own m \<and> oid m = nextId initial \<and> Gltf m \<in> set (scene w1)
     \<and> animations w2 = animations initial @ [OrbitAnimation (Model m) (Vec3 0 0 0) 0 3 (1 / 100)])
   \<and> (\<exists>w1.
       executeSceneActions allLoadsFail [loadModelAction ''sun'' None None] initial = Inr w1
     \<and> executeSceneActions allLoadsFail [orbitAction ''sun'' None None None] w1 = Inr w1
     \<and> executeSceneActions allLoadsFail
           [loadModelAction ''sun'' None None, orbitAction ''sun'' None None None] initial = Inr w1
     \<and> getProp (models w1) ''sun'' = Undefined
     \<and> animations w1 = animations initial \<and> scene w1 = scene initial
     \<and> models w1 = models initial)"
proof -
  let ?url = "''https://cdn.jsdelivr.net/gh/mrdoob/three.js@dev/examples/models/gltf/Planet.glb''"
  let ?l = "loadModelAction ''sun'' None None"
  let ?a = "orbitAction ''sun'' None None None"
  have h: "atype ?l = ''loadModel'' \<and> model ?l = Some ''sun'' \<and> atype ?a = ''animate''
        \<and> object ?a = Some ''sun'' \<and> getProp (models initial) ''sun'' = Undefined"
    by (simp add: loadModelAction_def orbitAction_def initial_lookup)
  have ok: "map_of availableModels ''sun'' = Some ?url \<and> allLoadsSucceed (loads initial) ?url
        \<and> animation ?a = Some ''orbit''"
    by (simp add: availableModels_lookup allLoadsSucceed_def orbitAction_def)
  have bad: "map_of availableModels ''sun'' = None
        \<or> (\<exists>u. map_of availableModels ''sun'' = Some u \<and> \<not> allLoadsFail (loads initial) u)"
    by (simp add: availableModels_lookup allLoadsFail_def)
  have d: "orObject (center ?a) (Vec3 0 0 0) = Vec3 0 0 0" "orNumber (radius ?a) 3 = 3"
    "orNumber (speed ?a) 0.01 = 1 / 100"
    by (simp_all add: orbitAction_def orObject_def orNumber_def)
  from executeSceneActions_in_list_order
    [of allLoadsSucceed "[]" initial "[]" ?l "''sun''" ?a ?url] h ok
  have c1: "\<exists>w1 w2 m.
       executeSceneActions allLoadsSucceed [?l] initial = Inr w1
     \<and> executeSceneActions allLoadsSucceed [?a] w1 = Inr w2
     \<and> executeSceneActions allLoadsSucceed [?l, ?a] initial = Inr w2
     \<and> getProp (models w1) ''sun'' = Own m \<and> oid m = nextId initial \<and> Gltf m \<in> set (scene w1)
     \<and> animations w2 = animations initial @ [OrbitAnimation (Model m) (Vec3 0 0 0) 0 3 (1 / 100)]"
    by (simp only: d simp_thms)
  from executeSceneActions_in_list_order
    [of allLoadsFail "[]" initial "[]" ?l "''sun''" ?a ?url] h bad
  have c2: "\<exists>w1.
       executeSceneActions allLoadsFail [?l] initial = Inr w1
     \<and> executeSceneActions allLoadsFail [?a] w1 = Inr w1
     \<and> executeSceneActions allLoadsFail [?l, ?a] initial = Inr w1
     \<and> getProp (models w1) ''sun'' = Undefined
     \<and> animations w1 = animations initial \<and> scene w1 = scene initial
     \<and> models w1 = models initial"
    by (simp only: simp_thms)
  from c1 c2 show ?thesis by (intro conjI)
qed

section \<open>Scene population\<close>

subsection \<open>The invariant and its preservation by the executor\<close>

lemma scene_ok_initial: "scene_ok initial"
  by (simp add: scene_ok_def initial_def)

lemma scene_ok_cong:
  "scene_ok w \<Longrightarrow> scene w' = scene w \<Longrightarrow> models w' = models w \<Longrightarrow>
   nextId w' = nextId w \<Longrightarrow> scene_ok w'"
  by (simp add: scene_ok_def cong: object3d.case_cong)

lemma update_fresh: "k \<notin> fst ` set al \<Longrightarrow> AList.update k v al = al @ [(k, v)]"
  by (induction al) auto

lemma getProp_Undefined_fresh: "getProp al k = Undefined \<Longrightarrow> k \<notin> fst ` set al"
  by (auto simp: getProp_def map_of_eq_None_iff split: option.splits if_splits)

lemma getProp_Inherited_fresh: "getProp al k = Inherited b \<Longrightarrow> k \<notin> fst ` set al"
  by (auto simp: getProp_def map_of_eq_None_iff split: option.splits if_splits)

lemma getProp_Own_mem: "getProp al k = Own v \<Longrightarrow> (k, v) \<in> set al"
  by (auto simp: getProp_def split: option.splits if_splits dest: map_of_SomeD)

lemma scene_ok_add:
  assumes ok: "scene_ok w" and fresh: "k \<notin> fst ` set (models w)"
    and m: "oid m = nextId w" "modelName m = k"
  shows "scene_ok (w\<lparr>scene := scene w @ [Gltf m], models := AList.update k m (models w),
                     nextId := Suc (nextId w), loads := n\<rparr>)"
proof -
  have notin: "Gltf m \<notin> set (scene w)"
  proof
    assume "Gltf m \<in> set (scene w)"
    with ok have "oid m < nextId w"
      by (auto simp: scene_ok_def)
    with m show False by simp
  qed
  have upd: "AList.update k m (models w) = models w @ [(k, m)]"
    using fresh by (rule update_fresh)
  show ?thesis
    using ok fresh notin m
    by (auto simp: scene_ok_def upd split: object3d.splits intro: less_SucI)
qed

lemma loadModel_cases:
  assumes "loadModel ld k p s w = (r, w')"
  obtains (same) "scene w' = scene w" "models w' = models w" "nextId w' = nextId w"
      "animations w' = animations w"
    | (added) m where "k \<notin> fst ` set (models w)" "oid m = nextId w" "modelName m = k"
      "w' = w\<lparr>scene := scene w @ [Gltf m], models := AList.update k m (models w),
               nextId := Suc (nextId w), loads := Suc (loads w)\<rparr>"
proof (cases "getProp (models w) k")
  case (Own m0)
  with assms have "w' = w" by (simp add: loadModel_cached)
  then show ?thesis by (intro same) simp_all
next
  case (Inherited b)
  with assms have "w' = w" by (simp add: loadModel_def)
  then show ?thesis by (intro same) simp_all
next
  case Undefined
  show ?thesis
  proof (cases "map_of availableModels k")
    case None
    with assms Undefined have "w' = w" by (simp add: loadModel_unavailable)
    then show ?thesis by (intro same) simp_all
  next
    case (Some url)
    show ?thesis
    proof (cases "ld (loads w) url")
      case True
      let ?m = "\<lparr>oid = nextId w, modelName = k, obj_position = default_param p (Vec3 0 0 0),
                 obj_scale = Vec3 (default_param s 1) (default_param s 1) (default_param s 1),
                 pointLight = (k = ''sun'')\<rparr>"
      from assms Undefined Some True
      have "w' = w\<lparr>scene := scene w @ [Gltf ?m], models := AList.update k ?m (models w),
               nextId := Suc (nextId w), loads := Suc (loads w)\<rparr>"
        by (simp add: loadModel_success Let_def)
      moreover have "k \<notin> fst ` set (models w)"
        using Undefined by (rule getProp_Undefined_fresh)
      moreover have "oid ?m = nextId w" "modelName ?m = k" by simp_all
      ultimately show ?thesis by (intro added [of ?m])
    next
      case False
      with assms Undefined Some
      have "w' = consoleError ''Error loading model:'' (LoaderError url) (w\<lparr>loads := Suc (loads w)\<rparr>)"
        by (simp add: loadModel_loader_error)
      then show ?thesis by (intro same) (simp_all add: consoleError_fields)
    qed
  qed
qed

lemma scene_ok_loadModel:
  assumes "scene_ok w" "loadModel ld k p s w = (r, w')"
  shows "scene_ok w'"
  using assms(2)
proof (cases rule: loadModel_cases)
  case same
  from assms(1) same(1,2,3) show ?thesis by (rule scene_ok_cong)
next
  case (added m)
  with assms(1) show ?thesis by (simp add: scene_ok_add)
qed

lemma animateTarget_same:
  assumes "animateTarget a ob w = Inr w' \<or> animateTarget a ob w = Inl (e, w')"
  shows "scene w' = scene w \<and> models w' = models w \<and> nextId w' = nextId w"
  using assms
  by (auto simp: animateTarget_def createOrbitAnimation_def createBeatingAnimation_def
      addAnimation_def Let_def split: if_splits jsvalue.splits)

lemma performAction_cases:
  assumes "performAction ld a w = Inr w' \<or> performAction ld a w = Inl (e, w')"
  obtains (same) "scene w' = scene w" "models w' = models w" "nextId w' = nextId w"
    | (loaded) r where "atype a = ''loadModel''"
        "loadModel ld (propertyKey (model a)) (Some (orObject (position a) (Vec3 0 0 0)))
           (Some (orNumber (scale a) 1)) w = (r, w')"
proof (cases "atype a = ''loadModel''")
  case True
  with assms obtain r where "loadModel ld (propertyKey (model a))
      (Some (orObject (position a) (Vec3 0 0 0))) (Some (orNumber (scale a) 1)) w = (r, w')"
    by (auto simp: performAction_def split: prod.splits promise.splits)
  with True show ?thesis by (rule loaded)
next
  case False
  with assms have "scene w' = scene w \<and> models w' = models w \<and> nextId w' = nextId w"
    by (auto simp: performAction_def split: if_splits property.splits
        dest: animateTarget_same [OF disjI1] animateTarget_same [OF disjI2])
  then show ?thesis by (intro same) simp_all
qed

lemma scene_ok_performAction:
  assumes "scene_ok w" "performAction ld a w = Inr w' \<or> performAction ld a w = Inl (e, w')"
  shows "scene_ok w'"
  using assms(2)
proof (cases rule: performAction_cases)
  case same
  from assms(1) same(1,2,3) show ?thesis by (rule scene_ok_cong)
next
  case (loaded r)
  from assms(1) loaded(2) show ?thesis by (rule scene_ok_loadModel)
qed

lemma try_catch_log_cases:
  assumes "try_catch (performAction ld a) (logActionError a) w = Inr w'"
  obtains (passed) "performAction ld a w = Inr w'"
    | (caught) e w1 where "performAction ld a w = Inl (e, w1)"
        "w' = consoleError (''Error executing action '' @ atype a @ '':'') e w1"
proof (cases "performAction ld a w")
  case (Inl ew)
  obtain e w1 where ew: "ew = (e, w1)" by (cases ew)
  from assms Inl ew
  have "w' = consoleError (''Error executing action '' @ atype a @ '':'') e w1"
    by (simp add: try_catch_def logActionError_def)
  with Inl ew show ?thesis by (intro caught [of e w1]) simp_all
next
  case (Inr w1)
  with assms have "w1 = w'" by (simp add: try_catch_def)
  with Inr show ?thesis by (intro passed) simp
qed

lemma scene_ok_step:
  assumes "scene_ok w" "try_catch (performAction ld a) (logActionError a) w = Inr w'"
  shows "scene_ok w'"
  using assms(2)
proof (cases rule: try_catch_log_cases)
  case passed
  then have "performAction ld a w = Inr w' \<or> performAction ld a w = Inl (undefined, w')"
    by simp
  with assms(1) show ?thesis by (rule scene_ok_performAction)
next
  case (caught e w1)
  then have "performAction ld a w = Inr w1 \<or> performAction ld a w = Inl (e, w1)"
    by simp
  with assms(1) have "scene_ok w1" by (rule scene_ok_performAction)
  then show ?thesis by (rule scene_ok_cong) (simp_all add: caught(2) consoleError_fields)
qed

lemma scene_ok_executeSceneActions:
  "scene_ok w \<Longrightarrow> executeSceneActions ld as w = Inr w' \<Longrightarrow> scene_ok w'"
proof (induction as arbitrary: w)
  case Nil
  from Nil(2) have "w' = w" by simp
  with Nil(1) show ?case by simp
next
  case (Cons a as)
  obtain w1 where w1: "try_catch (performAction ld a) (logActionError a) w = Inr w1"
    using try_catch_log_total by blast
  from Cons.prems(2) have rest: "executeSceneActions ld as w1 = Inr w'"
    by (simp add: w1)
  from Cons.prems(1) w1 have "scene_ok w1"
    by (rule scene_ok_step)
  from this rest show ?case by (rule Cons.IH)
qed

subsection \<open>Clearing the scene\<close>

lemma fold_remove1_models:
  "distinct sc \<Longrightarrow>
   distinct (fold (\<lambda>m children. remove1 (Gltf m) children) ms sc)
   \<and> set (fold (\<lambda>m children. remove1 (Gltf m) children) ms sc) = set sc - Gltf ` set ms"
proof (induction ms arbitrary: sc)
  case Nil
  then show ?case by simp
next
  case (Cons m ms)
  from Cons.prems have d: "distinct (remove1 (Gltf m) sc)" by simp
  from Cons.prems have s: "set (remove1 (Gltf m) sc) = set sc - {Gltf m}" by simp
  from Cons.IH [OF d] s show ?case by auto
qed

lemma clearScene_fields:
  "models (clearScene w) = []"
  "animations (clearScene w) = []"
  "nextId (clearScene w) = nextId w"
  "loads (clearScene w) = loads w"
  "chat (clearScene w) = chat w"
  "console (clearScene w) = console w"
  "currentTopic (clearScene w) = currentTopic w"
  by (simp_all add: clearScene_def)

lemma clearScene_no_models:
  assumes "scene_ok w"
  shows "\<forall>ob \<in> set (scene (clearScene w)). \<not> isModel ob"
proof
  fix ob
  assume ob: "ob \<in> set (scene (clearScene w))"
  from assms have d: "distinct (scene w)" by (simp add: scene_ok_def)
  from ob fold_remove1_models [OF d, of "map snd (models w)"]
  have in_scene: "ob \<in> set (scene w)" and not_cached: "ob \<notin> Gltf ` set (map snd (models w))"
    by (simp_all add: clearScene_def)
  show "\<not> isModel ob"
  proof (cases ob)
    case (Gltf m)
    with assms in_scene have "(modelName m, m) \<in> set (models w)"
      by (auto simp: scene_ok_def)
    then have "m \<in> set (map snd (models w))" by force
    with not_cached Gltf show ?thesis by simp
  qed (simp_all add: isModel_def)
qed

lemma clearScene_distinct:
  assumes "scene_ok w"
  shows "distinct (scene (clearScene w))"
proof -
  from assms have d: "distinct (scene w)" by (simp add: scene_ok_def)
  from fold_remove1_models [OF d, of "map snd (models w)"] show ?thesis
    by (simp add: clearScene_def)
qed

lemma scene_ok_clearScene:
  assumes "scene_ok w"
  shows "scene_ok (clearScene w)"
proof -
  have "case ob of Gltf m \<Rightarrow> (modelName m, m) \<in> set (models (clearScene w))
                                \<and> oid m < nextId (clearScene w) | _ \<Rightarrow> True"
    if "ob \<in> set (scene (clearScene w))" for ob
    using clearScene_no_models [OF assms] that
    by (cases ob) (auto simp: isModel_def)
  with clearScene_distinct [OF assms] show ?thesis
    by (simp add: scene_ok_def clearScene_fields)
qed

subsection \<open>Instances per key\<close>

lemma instances_cached:
  assumes "scene_ok w"
  shows "instances w k = (if k \<in> fst ` set (models w) then 1 else 0)"
proof -
  from assms have d: "distinct (scene w)" and dk: "distinct (map fst (models w))"
    by (simp_all add: scene_ok_def)
  have len: "instances w k = card ({ob. isModelFor k ob} \<inter> set (scene w))"
    using d by (simp add: instances_def distinct_length_filter)
  show ?thesis
  proof (cases "k \<in> fst ` set (models w)")
    case True
    then obtain m where m: "(k, m) \<in> set (models w)" by auto
    with assms have g: "Gltf m \<in> set (scene w)" "modelName m = k"
      by (auto simp: scene_ok_def)
    have "{ob. isModelFor k ob} \<inter> set (scene w) = {Gltf m}"
    proof (intro equalityI subsetI)
      fix ob
      assume "ob \<in> {ob. isModelFor k ob} \<inter> set (scene w)"
      then have ob: "isModelFor k ob" "ob \<in> set (scene w)" by simp_all
      then obtain m' where m': "ob = Gltf m'" "modelName m' = k"
        by (cases ob) (simp_all add: isModelFor_def)
      with assms ob(2) have "(k, m') \<in> set (models w)"
        by (auto simp: scene_ok_def)
      with dk m have "m' = m" by (auto dest: eq_key_imp_eq_value)
      with m' show "ob \<in> {Gltf m}" by simp
    next
      fix ob
      assume "ob \<in> {Gltf m}"
      with g show "ob \<in> {ob. isModelFor k ob} \<inter> set (scene w)"
        by (simp add: isModelFor_def)
    qed
    with len True show ?thesis by simp
  next
    case False
    have "{ob. isModelFor k ob} \<inter> set (scene w) = {}"
    proof (intro equalityI subsetI)
      fix ob
      assume "ob \<in> {ob. isModelFor k ob} \<inter> set (scene w)"
      then have ob: "isModelFor k ob" "ob \<in> set (scene w)" by simp_all
      then obtain m' where m': "ob = Gltf m'" "modelName m' = k"
        by (cases ob) (simp_all add: isModelFor_def)
      with assms ob(2) have "(k, m') \<in> set (models w)"
        by (auto simp: scene_ok_def)
      then have "k \<in> fst ` set (models w)" by force
      with False show "ob \<in> {}" by simp
    qed simp
    with len False show ?thesis by simp
  qed
qed

subsection \<open>Keys cached after a run of the executor\<close>

lemma available_not_builtin:
  "k \<in> fst ` set availableModels \<Longrightarrow> k \<notin> set objectPrototypeKeys"
  by (auto simp: availableModels_def objectPrototypeKeys_def)

lemma getProp_Inherited_builtin: "getProp al k = Inherited b \<Longrightarrow> k \<in> set objectPrototypeKeys"
  by (auto simp: getProp_def split: option.splits if_splits)

lemma keys_performAction_load:
  assumes all: "\<forall>n url. ld n url" and t: "atype a = ''loadModel''"
    and r: "performAction ld a w = Inr w' \<or> performAction ld a w = Inl (e, w')"
  shows "fst ` set (models w') =
     fst ` set (models w) \<union> {propertyKey (model a)} \<inter> fst ` set availableModels"
proof (cases "getProp (models w) (propertyKey (model a))")
  case (Own m)
  with t r have "w' = w" by (simp add: performAction_def loadModel_cached)
  moreover from Own have "propertyKey (model a) \<in> fst ` set (models w)"
    by (force dest: getProp_Own_mem)
  ultimately show ?thesis by blast
next
  case (Inherited b)
  with t r have "w' = w" by (simp add: performAction_def loadModel_def)
  moreover have "propertyKey (model a) \<notin> fst ` set availableModels"
    using getProp_Inherited_builtin [OF Inherited] available_not_builtin by blast
  ultimately show ?thesis by auto
next
  case Undefined
  show ?thesis
  proof (cases "map_of availableModels (propertyKey (model a))")
    case None
    with t r Undefined have "w' = w"
      by (simp add: performAction_def loadModel_unavailable)
    moreover from None have "propertyKey (model a) \<notin> fst ` set availableModels"
      by (simp add: map_of_eq_None_iff)
    ultimately show ?thesis by auto
  next
    case (Some url)
    from all have "ld (loads w) url" by simp
    from performAction_load_success [of a w url ld, OF t Undefined Some this] r
    have "models w' = AList.update (propertyKey (model a))
        \<lparr>oid = nextId w, modelName = propertyKey (model a),
          obj_position = orObject (position a) (Vec3 0 0 0),
          obj_scale = Vec3 (orNumber (scale a) 1) (orNumber (scale a) 1) (orNumber (scale a) 1),
          pointLight = (propertyKey (model a) = ''sun'')\<rparr> (models w)"
      by auto
    then have "fst ` set (models w') = {propertyKey (model a)} \<union> fst ` set (models w)"
      by (simp only: dom_update)
    moreover from Some have "propertyKey (model a) \<in> fst ` set availableModels"
      by (force dest: map_of_SomeD)
    ultimately show ?thesis by auto
  qed
qed

lemma keys_step:
  assumes all: "\<forall>n url. ld n url"
    and r: "try_catch (performAction ld a) (logActionError a) w = Inr w'"
  shows "fst ` set (models w') =
     fst ` set (models w) \<union> set (modelKeys [a]) \<inter> fst ` set availableModels"
proof (cases "atype a = ''loadModel''")
  case True
  then have mk: "set (modelKeys [a]) = {propertyKey (model a)}"
    by (simp add: modelKeys_def)
  from r show ?thesis
  proof (cases rule: try_catch_log_cases)
    case passed
    then have "performAction ld a w = Inr w' \<or> performAction ld a w = Inl (undefined, w')"
      by simp
    from keys_performAction_load [OF all True this] mk show ?thesis by simp
  next
    case (caught e w1)
    then have "performAction ld a w = Inr w1 \<or> performAction ld a w = Inl (e, w1)"
      by simp
    from keys_performAction_load [OF all True this] mk caught(2) show ?thesis
      by (simp add: consoleError_fields)
  qed
next
  case False
  then have mk: "set (modelKeys [a]) = {}"
    by (simp add: modelKeys_def)
  from r have "models w' = models w"
  proof (cases rule: try_catch_log_cases)
    case passed
    then have "performAction ld a w = Inr w' \<or> performAction ld a w = Inl (undefined, w')"
      by simp
    then show ?thesis using False by (cases rule: performAction_cases) simp_all
  next
    case (caught e w1)
    then have "performAction ld a w = Inr w1 \<or> performAction ld a w = Inl (e, w1)"
      by simp
    then have "models w1 = models w" using False by (cases rule: performAction_cases) simp_all
    with caught(2) show ?thesis by (simp add: consoleError_fields)
  qed
  with mk show ?thesis by simp
qed

lemma union_of_steps:
  "K1 = K \<union> Ma \<inter> A \<Longrightarrow> K2 = K1 \<union> Mas \<inter> A \<Longrightarrow> K2 = K \<union> (Ma \<union> Mas) \<inter> A"
  by blast

lemma modelKeys_Cons: "set (modelKeys (a # as)) = set (modelKeys [a]) \<union> set (modelKeys as)"
  by (simp add: modelKeys_def)

lemma keys_executeSceneActions:
  assumes all: "\<forall>n url. ld n url"
  shows "executeSceneActions ld as w = Inr w' \<Longrightarrow>
     fst ` set (models w') =
       fst ` set (models w) \<union> set (modelKeys as) \<inter> fst ` set availableModels"
proof (induction as arbitrary: w)
  case Nil
  from Nil have "w' = w" by simp
  then show ?case by (simp add: modelKeys_def)
next
  case (Cons a as)
  obtain w1 where w1: "try_catch (performAction ld a) (logActionError a) w = Inr w1"
    using try_catch_log_total by blast
  from Cons.prems have rest: "executeSceneActions ld as w1 = Inr w'"
    by (simp add: w1)
  from union_of_steps [OF keys_step [OF all w1] Cons.IH [OF rest]] show ?case
    by (simp add: modelKeys_Cons [of a as])
qed

subsection \<open>The reload of a cleared scene, awaited\<close>

text \<open>
  When the executor of a topic switch runs to its end before anything else happens, the
  cleared scene ends with exactly one model for each key the template loads: the scene and
  the cache agree before the switch, \<open>clearScene\<close> then removes every model, and the cache
  check of \<open>loadModel\<close> keeps a key from being loaded twice.
\<close>

lemma awaited_reload_loads_once:
  assumes ok: "scene_ok w" and all: "\<forall>n url. ld n url"
    and av: "set (modelKeys as) \<subseteq> fst ` set availableModels"
    and ex: "executeSceneActions ld as (clearScene w) = Inr w'"
  shows "instances w' k = (if k \<in> set (modelKeys as) then 1 else 0)"
proof -
  have "scene_ok (clearScene w)" using ok by (rule scene_ok_clearScene)
  then have ok': "scene_ok w'" using ex by (rule scene_ok_executeSceneActions)
  have "fst ` set (models w') =
      fst ` set (models (clearScene w)) \<union> set (modelKeys as) \<inter> fst ` set availableModels"
    using all ex by (rule keys_executeSceneActions)
  with av have "fst ` set (models w') = set (modelKeys as)"
    by (auto simp: clearScene_fields)
  with instances_cached [OF ok', of k] show ?thesis by simp
qed

subsection \<open>The executor suspended at a load\<close>

text \<open>
  Starting a load and settling it at once is \<open>loadModel\<close>, and the executor that is
  started, suspended at its first load and resumed when the load settles does what the
  awaited executor does, provided nothing else happens in between.
\<close>

lemma loadModel_start_settle:
  "loadModel ld k p s w = (case startLoadModel k p s w of (st, w1) \<Rightarrow> settleLoad ld st w1)"
  by (simp add: loadModel_def startLoadModel_def settleLoad_def consoleError_def Let_def
      split: property.splits option.splits)

lemma executeSceneActions_start_done:
  "startSceneActions ld as w = (None, w') \<Longrightarrow> executeSceneActions ld as w = Inr w'"
proof (induction as arbitrary: w)
  case Nil
  then show ?case by simp
next
  case (Cons a as)
  from Cons.prems have nl: "atype a \<noteq> ''loadModel''"
    by (auto split: prod.splits)
  obtain w1 where w1: "try_catch (performAction ld a) (logActionError a) w = Inr w1"
    using try_catch_log_total by blast
  from Cons.prems nl have "startSceneActions ld as w1 = (None, w')"
    by (simp add: w1)
  then have "executeSceneActions ld as w1 = Inr w'" by (rule Cons.IH)
  then show ?case by (simp add: w1)
qed

lemma executeSceneActions_start_suspended:
  "startSceneActions ld as w = (Some t, w1) \<Longrightarrow>
   executeSceneActions ld as w =
     executeSceneActions ld (remaining t)
       (case settleLoad ld (awaited t) w1 of
          (Resolved v, w2) \<Rightarrow> w2
        | (Rejected e, w2) \<Rightarrow>
            consoleError (''Error executing action '' @ atype (current t) @ '':'') e w2)"
proof (induction as arbitrary: w)
  case Nil
  then show ?case by simp
next
  case (Cons a as)
  show ?case
  proof (cases "atype a = ''loadModel''")
    case True
    let ?k = "propertyKey (model a)"
    let ?p = "Some (orObject (position a) (Vec3 0 0 0))"
    let ?s = "Some (orNumber (scale a) 1)"
    obtain st w0 where st: "startLoadModel ?k ?p ?s w = (st, w0)"
      by (cases "startLoadModel ?k ?p ?s w")
    from Cons.prems True st
    have t: "t = \<lparr>awaited = st, current = a, remaining = as\<rparr>" and w0: "w0 = w1"
      by simp_all
    obtain r w2 where r: "settleLoad ld st w1 = (r, w2)"
      by (cases "settleLoad ld st w1")
    from st w0 r have lm: "loadModel ld ?k ?p ?s w = (r, w2)"
      by (simp add: loadModel_start_settle)
    show ?thesis
    proof (cases r)
      case (Resolved v)
      with True lm r t show ?thesis
        by (simp add: performAction_def try_catch_def)
    next
      case (Rejected e)
      with True lm r t show ?thesis
        by (simp add: performAction_def try_catch_def logActionError_def)
    qed
  next
    case False
    obtain w0 where w0: "try_catch (performAction ld a) (logActionError a) w = Inr w0"
      using try_catch_log_total by blast
    from Cons.prems False have "startSceneActions ld as w0 = (Some t, w1)"
      by (simp add: w0)
    from Cons.IH [OF this] show ?thesis by (simp add: w0)
  qed
qed

subsection \<open>Topic switches\<close>

lemma processQuery_explain:
  "getProp topics t = Own td \<Longrightarrow> map_of (responses td) ''explain'' = Some r \<Longrightarrow>
   processQuery topics t ''explain'' = Inr (Some \<lparr>topic = t, intent = ''explain'', response = r\<rparr>)"
  by (simp add: processQuery_def detectIntent_explain)

lemma volcano_explain_actions:
  "actions (snd (hd (responses volcano))) =
     [loadModelAction ''volcano'' (Some (Vec3 0 (-1) 0)) (Some 1.5)]"
  by (simp add: volcano_def)

lemma volcano_start:
  assumes "models w = []"
  shows "startSceneActions ld (actions (snd (hd (responses volcano)))) w =
    (Some (volcanoTask (loads w)), w\<lparr>loads := Suc (loads w)\<rparr>)"
  using assms
  by (simp add: volcano_explain_actions loadModelAction_def propertyKey_def startLoadModel_def
      getProp_def objectPrototypeKeys_def availableModels_def default_param_def orObject_def
      orNumber_def volcanoTask_def Let_def)

lemma handleAIResponse_volcano:
  assumes "models w = []"
  shows "handleAIResponse ld
      (Some \<lparr>topic = t, intent = i, response = snd (hd (responses volcano))\<rparr>) w =
    displayQuiz (the (quiz (snd (hd (responses volcano)))))
      (suspend
        (Some (volcanoTask (loads w)),
         (speak (narration (snd (hd (responses volcano))))
           (addChatMessage ''AI Teacher'' (narration (snd (hd (responses volcano)))) ''ai'' w))
         \<lparr>loads := Suc (loads w)\<rparr>))"
proof -
  obtain qz where qz: "quiz (snd (hd (responses volcano))) = Some qz"
    by (simp add: volcano_def)
  show ?thesis
    using assms
    by (simp add: handleAIResponse_def volcano_start speak_chat_fields qz Let_def
        del: startSceneActions.simps)
qed

lemma loadTopic_volcano:
  "loadTopic ld ''volcano'' w =
    Inr (displayQuiz (the (quiz (snd (hd (responses volcano)))))
          (suspend
            (Some (volcanoTask (loads w)),
             (speak (narration (snd (hd (responses volcano))))
               (addChatMessage ''AI Teacher'' (narration (snd (hd (responses volcano)))) ''ai''
                 (addChatMessage ''AI Teacher'' ''Loading Volcano lesson...'' ''ai''
                   (clearScene (w\<lparr>currentTopic := Some ''volcano''\<rparr>)))))
             \<lparr>loads := Suc (loads w)\<rparr>)))"
proof -
  let ?r = "snd (hd (responses volcano))"
  let ?wc = "clearScene (w\<lparr>currentTopic := Some ''volcano''\<rparr>)"
  let ?w1 = "addChatMessage ''AI Teacher'' ''Loading Volcano lesson...'' ''ai'' ?wc"
  have g: "getProp topics ''volcano'' = Own volcano"
    by (simp add: getProp_def topics_def)
  have x: "map_of (responses volcano) ''explain'' = Some ?r"
    by (simp add: volcano_def)
  have n: "''Loading '' @ name volcano @ '' lesson...'' = ''Loading Volcano lesson...''"
    by (simp add: volcano_def)
  have m: "models ?w1 = []"
    by (simp add: speak_chat_fields clearScene_def)
  have l: "loads ?w1 = loads w"
    by (simp add: speak_chat_fields clearScene_def)
  have "loadTopic ld ''volcano'' w = Inr (loadLesson ld ''volcano'' (name volcano) ?wc)"
    by (simp add: loadTopic_def g)
  also have "loadLesson ld ''volcano'' (name volcano) ?wc =
      handleAIResponse ld (Some \<lparr>topic = ''volcano'', intent = ''explain'', response = ?r\<rparr>) ?w1"
    unfolding loadLesson_def n by (simp add: processQuery_explain [OF g x])
  also have "\<dots> = displayQuiz (the (quiz ?r))
      (suspend (Some (volcanoTask (loads ?w1)),
         (speak (narration ?r) (addChatMessage ''AI Teacher'' (narration ?r) ''ai'' ?w1))
         \<lparr>loads := Suc (loads ?w1)\<rparr>))"
    by (rule handleAIResponse_volcano [OF m])
  finally show ?thesis unfolding l .
qed

lemma loadTopic_volcano_initial:
  "loadTopic allLoadsSucceed ''volcano'' initial = Inr volcanoLoading"
  by (simp add: loadTopic_volcano suspend_def displayQuiz_def speak_def addChatMessage_def
      clearScene_def initial_def volcanoLoading_def volcanoLoaded_def volcano_def)

text \<open>
  Whatever the state, \<open>loadTopic\<close> for the volcano returns with an empty cache and one
  more load in flight than before.
\<close>

lemma loadTopic_volcano_pending:
  "\<exists>w1. loadTopic ld ''volcano'' w = Inr w1 \<and> models w1 = []
     \<and> pending w1 = pending w @ [volcanoTask (loads w)]"
  by (simp add: loadTopic_volcano suspend_def displayQuiz_def speak_chat_fields clearScene_def)

lemma resume_volcanoLoading:
  "resume allLoadsSucceed 0 volcanoLoading = volcanoLoaded"
  by (simp add: resume_def resumeTask_def settleLoad_def suspend_def allLoadsSucceed_def
      volcanoLoading_def volcanoLoaded_def volcanoTask_def volcanoModel_def Let_def)

lemma loadTopic_volcano_again:
  "loadTopic allLoadsSucceed ''volcano'' volcanoLoading = Inr volcanoLoadingTwice"
  by (simp add: loadTopic_volcano suspend_def displayQuiz_def speak_def addChatMessage_def
      clearScene_def volcanoLoadingTwice_def volcanoLoading_def volcanoLoaded_def volcano_def)

lemma resume_volcanoLoadingTwice:
  "resume allLoadsSucceed 0 (resume allLoadsSucceed 0 volcanoLoadingTwice) = volcanoTwice"
  by (simp add: resume_def resumeTask_def settleLoad_def suspend_def allLoadsSucceed_def
      volcanoTwice_def volcanoLoadingTwice_def volcanoLoading_def volcanoLoaded_def
      volcanoTask_def volcanoModel_def Let_def)

lemma instances_volcanoTwice:
  "instances volcanoTwice ''volcano'' = 2"
  by (simp add: instances_def isModelFor_def volcanoTwice_def volcanoModel_def)

lemma clearScene_volcanoTwice:
  "scene (clearScene volcanoTwice) = [AmbientLight, DirectionalLight, Gltf volcanoModel]"
  by (simp add: clearScene_def volcanoTwice_def volcanoModel_def)

lemma resume_volcanoLoadingTwice_reversed:
  "instances (resume allLoadsSucceed 0 (resume allLoadsSucceed 1 volcanoLoadingTwice)) ''volcano'' = 2"
  by (simp add: resume_def resumeTask_def settleLoad_def suspend_def allLoadsSucceed_def
      volcanoLoadingTwice_def volcanoLoading_def volcanoLoaded_def
      volcanoTask_def instances_def isModelFor_def Let_def)

text \<open>
  A second switch made once the load of the first has settled finds the volcano in the
  cache, removes it, and ends with one volcano again.
\<close>

lemma topic_switch_after_load:
  "\<exists>w. loadTopic allLoadsSucceed ''volcano'' volcanoLoaded = Inr w
     \<and> instances w ''volcano'' = 0
     \<and> instances (resume allLoadsSucceed 0 w) ''volcano'' = 1
     \<and> pending (resume allLoadsSucceed 0 w) = []"
  by (simp add: loadTopic_volcano suspend_def displayQuiz_def speak_def addChatMessage_def
      clearScene_def volcanoLoaded_def volcanoModel_def
      resume_def resumeTask_def settleLoad_def allLoadsSucceed_def volcanoTask_def
      instances_def isModelFor_def Let_def)

lemma modelKeys_volcano:
  "modelKeys (actions (snd (hd (responses volcano)))) = [''volcano'']"
  by (simp add: volcano_explain_actions modelKeys_def loadModelAction_def propertyKey_def)

text \<open>
  Claim C7 on the code. \<open>handleAIResponse\<close> starts the executor without awaiting it, so
  the promise of \<open>loadTopic\<close> resolves with the load of the volcano still in flight and
  nothing in the cache. A second \<open>loadTopic\<close> for the volcano, called then, clears a scene
  that holds no volcano yet and starts a second load, which the cache check does not stop.
  Once both loads have settled, in either order, the scene holds two volcano models where
  the template names the key once. The cache holds only the model of the second load, so the
  next \<open>clearScene\<close> leaves the first one in the scene.
\<close>

theorem topic_switch_twice_duplicates:
  "loadTopic allLoadsSucceed ''volcano'' initial = Inr volcanoLoading
   \<and> pending volcanoLoading = [volcanoTask 0]
   \<and> models volcanoLoading = []
   \<and> loadTopic allLoadsSucceed ''volcano'' volcanoLoading = Inr volcanoLoadingTwice
   \<and> pending volcanoLoadingTwice = [volcanoTask 0, volcanoTask 1]
   \<and> resume allLoadsSucceed 0 (resume allLoadsSucceed 0 volcanoLoadingTwice) = volcanoTwice
   \<and> pending volcanoTwice = []
   \<and> scene volcanoTwice =
        [AmbientLight, DirectionalLight, Gltf volcanoModel, Gltf (volcanoModel\<lparr>oid := 1\<rparr>)]
   \<and> models volcanoTwice = [(''volcano'', volcanoModel\<lparr>oid := 1\<rparr>)]
   \<and> modelKeys (actions (snd (hd (responses volcano)))) = [''volcano'']
   \<and> instances volcanoTwice ''volcano'' = 2
   \<and> instances (resume allLoadsSucceed 0 (resume allLoadsSucceed 1 volcanoLoadingTwice))
        ''volcano'' = 2
   \<and> scene (clearScene volcanoTwice) = [AmbientLight, DirectionalLight, Gltf volcanoModel]"
proof -
  have p1: "pending volcanoLoading = [volcanoTask 0]"
    and m1: "models volcanoLoading = []"
    by (simp_all add: volcanoLoading_def)
  have p2: "pending volcanoLoadingTwice = [volcanoTask 0, volcanoTask 1]"
    by (simp add: volcanoLoadingTwice_def)
  have p3: "pending volcanoTwice = []"
    and s3: "scene volcanoTwice =
        [AmbientLight, DirectionalLight, Gltf volcanoModel, Gltf (volcanoModel\<lparr>oid := 1\<rparr>)]"
    and m3: "models volcanoTwice = [(''volcano'', volcanoModel\<lparr>oid := 1\<rparr>)]"
    by (simp_all add: volcanoTwice_def)
  from loadTopic_volcano_initial p1 m1 loadTopic_volcano_again p2 resume_volcanoLoadingTwice
    p3 s3 m3 modelKeys_volcano instances_volcanoTwice resume_volcanoLoadingTwice_reversed
    clearScene_volcanoTwice
  show ?thesis by (intro conjI)
qed

subsection \<open>A topic the registry does not have\<close>

lemma trim_explain: "trim ''explain'' = ''explain''"
  by code_simp

lemma handleUserInput_unknown_topic:
  assumes "currentTopic w = Some ''mars-colony''"
  shows "handleUserInput ld ''explain'' w = addChatMessage ''You'' ''explain'' ''user'' w"
proof -
  have g: "getProp topics ''mars-colony'' = Undefined"
    by (simp add: getProp_def topics_def objectPrototypeKeys_def)
  have "currentTopic (addChatMessage ''You'' ''explain'' ''user'' w) = Some ''mars-colony''"
    using assms by (simp add: addChatMessage_def)
  then show ?thesis
    by (simp add: handleUserInput_def trim_explain processQuery_def g handleAIResponse_def Let_def)
qed

text \<open>
  Claim C4 on the code. With the volcano loaded, switching to the topic \<open>mars-colony\<close>,
  which the registry does not have, ends in an uncaught \<open>TypeError\<close> after the scene has
  been cleared and the current topic overwritten; nothing is added to the chat. The resolver
  itself answers an unknown topic with \<open>null\<close>, which \<open>handleAIResponse\<close> ignores, and a
  user query on an unknown current topic leaves the scene as it is.
\<close>

theorem loadTopic_unknown_topic_clears_scene:
  "loadTopic allLoadsSucceed ''volcano'' initial = Inr volcanoLoading
   \<and> resume allLoadsSucceed 0 volcanoLoading = volcanoLoaded
   \<and> scene volcanoLoaded = [AmbientLight, DirectionalLight, Gltf volcanoModel]
   \<and> getProp topics ''mars-colony'' = Undefined
   \<and> loadTopic ld ''mars-colony'' volcanoLoaded =
       Inl (TypeError,
            volcanoLoaded\<lparr>scene := [AmbientLight, DirectionalLight], models := [],
                           currentTopic := Some ''mars-colony''\<rparr>)
   \<and> processQuery topics ''mars-colony'' q = Inr None
   \<and> handleAIResponse ld None w = w
   \<and> handleUserInput ld ''explain'' (volcanoLoaded\<lparr>currentTopic := Some ''mars-colony''\<rparr>) =
       addChatMessage ''You'' ''explain'' ''user''
         (volcanoLoaded\<lparr>currentTopic := Some ''mars-colony''\<rparr>)"
proof -
  have g: "getProp topics ''mars-colony'' = Undefined"
    by (simp add: getProp_def topics_def objectPrototypeKeys_def)
  have s: "scene volcanoLoaded = [AmbientLight, DirectionalLight, Gltf volcanoModel]"
    by (simp add: volcanoLoaded_def)
  have l: "loadTopic ld ''mars-colony'' volcanoLoaded =
       Inl (TypeError,
            volcanoLoaded\<lparr>scene := [AmbientLight, DirectionalLight], models := [],
                           currentTopic := Some ''mars-colony''\<rparr>)"
    by (simp add: loadTopic_def g clearScene_def volcanoLoaded_def)
  have p: "processQuery topics ''mars-colony'' q = Inr None"
    by (simp add: processQuery_def g)
  have h: "handleAIResponse ld None w = w"
    by (simp add: handleAIResponse_def)
  have u: "handleUserInput ld ''explain'' (volcanoLoaded\<lparr>currentTopic := Some ''mars-colony''\<rparr>) =
       addChatMessage ''You'' ''explain'' ''user''
         (volcanoLoaded\<lparr>currentTopic := Some ''mars-colony''\<rparr>)"
    by (rule handleUserInput_unknown_topic) simp
  from loadTopic_volcano_initial resume_volcanoLoading s g l p h u show ?thesis by (intro conjI)
qed

end
